theory Spec2Isabelle
  imports
    Complex_Main
    "HOL-Library.Char_ord"
    "HOL-Library.List_Lexorder"
    "HOL-Library.Multiset"
    "HOL-Library.Option_ord"
    "HOL-Library.Product_Lexorder"
begin

section \<open>Exceptions\<close>

text \<open>
  The exceptions of \<^verbatim>\<open>main.py\<close> are values. \<open>NotFound\<close> is
  \<^verbatim>\<open>google.cloud.exceptions.NotFound\<close>, raised by the clients for a resource that
  does not exist. Every other failure of a client call (permissions, a malformed request,
  the service being down) is a \<open>ServiceError\<close>. \<open>KeyError\<close> comes from
  \<^verbatim>\<open>os.environ[...]\<close> and \<open>OverflowError\<close> from date arithmetic that leaves the range
  of \<^verbatim>\<open>datetime.date\<close>.
\<close>

datatype fault = Forbidden | BadRequest | InternalServerError | ServiceUnavailable

datatype error = NotFound | ServiceError fault | KeyError string | OverflowError

definition sum_bind :: "error + 'a \<Rightarrow> ('a \<Rightarrow> error + 'b) \<Rightarrow> error + 'b" where
  "sum_bind r f = (case r of Inl e \<Rightarrow> Inl e | Inr x \<Rightarrow> f x)"

section \<open>Dates: \<^verbatim>\<open>datetime.date\<close> and \<^verbatim>\<open>timedelta\<close>\<close>

text \<open>
  A date is (year, month, day) in the proleptic Gregorian calendar; the lexicographic order
  of the triple is the chronological order. \<^verbatim>\<open>datetime.date\<close> holds the years
  1 to 9999 (\<^verbatim>\<open>MINYEAR\<close>, \<^verbatim>\<open>MAXYEAR\<close>).
\<close>

type_synonym date = "nat \<times> nat \<times> nat"

fun year :: "date \<Rightarrow> nat" where "year (y, m, d) = y"

fun month :: "date \<Rightarrow> nat" where "month (y, m, d) = m"

fun day :: "date \<Rightarrow> nat" where "day (y, m, d) = d"

definition is_leap :: "nat \<Rightarrow> bool" where
  "is_leap y = (y mod 4 = 0 \<and> (if y mod 100 = 0 then y mod 400 = 0 else True))"

definition days_in_month :: "nat \<Rightarrow> nat \<Rightarrow> nat" where
  "days_in_month y m =
     (if m = 2 then (if is_leap y then 29 else 28)
      else if m = 4 \<or> m = 6 \<or> m = 9 \<or> m = 11 then 30 else 31)"

fun valid_date :: "date \<Rightarrow> bool" where
  "valid_date (y, m, d) =
     (1 \<le> y \<and> y \<le> 9999 \<and> 1 \<le> m \<and> m \<le> 12 \<and> 1 \<le> d \<and> d \<le> days_in_month y m)"

text \<open>The day before; there is none before 0001-01-01, where Python raises OverflowError.\<close>

fun prev_day :: "date \<Rightarrow> error + date" where
  "prev_day (y, m, d) =
     (if 1 < d then Inr (y, m, d - 1)
      else if 1 < m then Inr (y, m - 1, days_in_month y (m - 1))
      else if 1 < y then Inr (y - 1, 12, 31)
      else Inl OverflowError)"

text \<open>\<^verbatim>\<open>d - timedelta(days=n)\<close> for \<open>n \<ge> 0\<close>: the date \<open>n\<close> days before \<open>d\<close>.\<close>

fun date_sub_days :: "date \<Rightarrow> nat \<Rightarrow> error + date" where
  "date_sub_days d 0 = Inr d"
| "date_sub_days d (Suc n) =
     (case prev_day d of Inl e \<Rightarrow> Inl e | Inr d' \<Rightarrow> date_sub_days d' n)"

definition digit_char :: "nat \<Rightarrow> char" where
  "digit_char n = ''0123456789'' ! (n mod 10)"

text \<open>
  The format \<^verbatim>\<open>%Y%m\<close>: the year in four digits and the month in two, as Python's
  \<^verbatim>\<open>strftime('%Y%m')\<close> is documented to print it (years below 1000 padded with zeros).
  BigQuery's \<^verbatim>\<open>FORMAT_DATE("%Y%m", ...)\<close> prints the same digits for the years from 1000
  on and is modelled by the same function.
\<close>

fun format_Ym :: "date \<Rightarrow> string" where
  "format_Ym (y, m, d) =
     [digit_char (y div 1000), digit_char (y div 100), digit_char (y div 10), digit_char y,
      digit_char (m div 10), digit_char m]"

section \<open>Module-level variables\<close>

text \<open>
  \<^verbatim>\<open>main.py\<close> lines 21 to 33: six settings read from the process environment and the
  four date variables, computed once when the module is loaded.
\<close>

record globals =
  project_id :: string
  data_bucket_name :: string
  main_table_name :: string
  bigquery_projects :: "string list"
  billing_project_id :: string
  billing_dataset_id :: string
  date_tc :: date
  date_last_day_previous_month :: date
  date_first_day_previous_month :: date
  str_last_month :: string

text \<open>\<^verbatim>\<open>os.environ[k]\<close> raises KeyError for a variable that is not set.\<close>

definition environ_get :: "(string \<rightharpoonup> string) \<Rightarrow> string \<Rightarrow> error + string" where
  "environ_get environ k = (case environ k of None \<Rightarrow> Inl (KeyError k) | Some v \<Rightarrow> Inr v)"

text \<open>\<^verbatim>\<open>s.split(c)\<close>: the pieces of \<open>s\<close> between the occurrences of \<open>c\<close>; never empty.\<close>

fun split :: "char \<Rightarrow> string \<Rightarrow> string list" where
  "split c [] = [[]]"
| "split c (x # xs) =
     (if x = c then [] # split c xs
      else (case split c xs of [] \<Rightarrow> [[x]] | p # ps \<Rightarrow> (x # p) # ps))"

text \<open>
  Lines 29 to 33, with \<open>today\<close> the value of \<^verbatim>\<open>date.today()\<close>: the last day of the
  previous month, its first day and the key of the month.
\<close>

definition previous_month :: "date \<Rightarrow> error + date \<times> date \<times> string" where
  "previous_month today =
     sum_bind (date_sub_days today (day today)) (\<lambda>last_day.
     sum_bind (date_sub_days last_day (day last_day - 1)) (\<lambda>first_day.
     Inr (first_day, last_day, format_Ym first_day)))"

definition load_module :: "(string \<rightharpoonup> string) \<Rightarrow> date \<Rightarrow> error + globals" where
  "load_module environ today =
     sum_bind (environ_get environ ''PROJECT_ID'') (\<lambda>v1.
     sum_bind (environ_get environ ''BUCKET_NAME'') (\<lambda>v2.
     sum_bind (environ_get environ ''MAIN_TABLE_NAME'') (\<lambda>v3.
     sum_bind (environ_get environ ''BIQUERY_PROJECTS'') (\<lambda>v4.
     sum_bind (environ_get environ ''BILLING_PROJECT_ID'') (\<lambda>v5.
     sum_bind (environ_get environ ''BILLING_DATASET_ID'') (\<lambda>v6.
     sum_bind (previous_month today) (\<lambda>(first_day, last_day, key).
     Inr \<lparr>project_id = v1, data_bucket_name = v2, main_table_name = v3,
          bigquery_projects = split CHR '','' v4,
          billing_project_id = v5, billing_dataset_id = v6,
          date_tc = today,
          date_last_day_previous_month = last_day,
          date_first_day_previous_month = first_day,
          str_last_month = key\<rparr>)))))))"

section \<open>SQL values\<close>

text \<open>
  A column value is \<open>None\<close> for NULL. Comparisons and \<^verbatim>\<open>AND\<close> follow SQL's
  three-valued logic; \<^verbatim>\<open>WHERE\<close> keeps a row and \<^verbatim>\<open>IF\<close> takes its first branch only
  when the condition is true, not when it is NULL. INT64 is modelled by \<open>int\<close> and FLOAT64
  by exact rationals.
\<close>

definition sql_eq :: "'a option \<Rightarrow> 'a option \<Rightarrow> bool option" where
  "sql_eq a b = (case a of None \<Rightarrow> None | Some x \<Rightarrow> (case b of None \<Rightarrow> None | Some y \<Rightarrow> Some (x = y)))"

definition sql_ne :: "'a option \<Rightarrow> 'a option \<Rightarrow> bool option" where
  "sql_ne a b = (case a of None \<Rightarrow> None | Some x \<Rightarrow> (case b of None \<Rightarrow> None | Some y \<Rightarrow> Some (x \<noteq> y)))"

definition sql_le :: "('a::linorder) option \<Rightarrow> 'a option \<Rightarrow> bool option" where
  "sql_le a b = (case a of None \<Rightarrow> None | Some x \<Rightarrow> (case b of None \<Rightarrow> None | Some y \<Rightarrow> Some (x \<le> y)))"

definition sql_and :: "bool option \<Rightarrow> bool option \<Rightarrow> bool option" where
  "sql_and a b =
     (if a = Some False \<or> b = Some False then Some False
      else if a = Some True \<and> b = Some True then Some True
      else None)"

text \<open>\<^verbatim>\<open>x BETWEEN lo AND hi\<close> is \<^verbatim>\<open>lo <= x AND x <= hi\<close>.\<close>

definition sql_between :: "('a::linorder) option \<Rightarrow> 'a option \<Rightarrow> 'a option \<Rightarrow> bool option" where
  "sql_between x lo hi = sql_and (sql_le lo x) (sql_le x hi)"

definition sql_true :: "bool option \<Rightarrow> bool" where
  "sql_true c = (c = Some True)"

definition sql_if :: "bool option \<Rightarrow> 'a \<Rightarrow> 'a \<Rightarrow> 'a" where
  "sql_if c a b = (if sql_true c then a else b)"

definition sql_mul :: "rat option \<Rightarrow> rat option \<Rightarrow> rat option" where
  "sql_mul a b = (case a of None \<Rightarrow> None | Some x \<Rightarrow> (case b of None \<Rightarrow> None | Some y \<Rightarrow> Some (x * y)))"

definition sql_div :: "rat option \<Rightarrow> rat option \<Rightarrow> rat option" where
  "sql_div a b = (case a of None \<Rightarrow> None | Some x \<Rightarrow> (case b of None \<Rightarrow> None | Some y \<Rightarrow> Some (x / y)))"

text \<open>\<^verbatim>\<open>ROUND(x, n)\<close>: to \<open>n\<close> decimal places, halfway cases away from zero.\<close>

definition round_to :: "rat \<Rightarrow> nat \<Rightarrow> rat" where
  "round_to x n =
     (if 0 \<le> x then of_int \<lfloor>x * 10 ^ n + 1 / 2\<rfloor> / 10 ^ n
      else - (of_int \<lfloor>- x * 10 ^ n + 1 / 2\<rfloor> / 10 ^ n))"

definition sql_round :: "rat option \<Rightarrow> nat \<Rightarrow> rat option" where
  "sql_round a n = map_option (\<lambda>x. round_to x n) a"

text \<open>\<^verbatim>\<open>SUM\<close> skips NULLs and is NULL when no value is left.\<close>

definition sql_sum :: "('a::monoid_add) option list \<Rightarrow> 'a option" where
  "sql_sum xs = (case List.map_filter (\<lambda>x. x) xs of [] \<Rightarrow> None | v # vs \<Rightarrow> Some (sum_list (v # vs)))"

text \<open>
  A TIMESTAMP is its UTC calendar date and the microsecond of that day; the lexicographic
  order is the chronological order. \<^verbatim>\<open>date(t)\<close> is the date of the timestamp. A string
  literal \<^verbatim>\<open>'YYYY-MM-DD'\<close> compared with a TIMESTAMP is read as that day at 00:00:00 UTC.
\<close>

type_synonym timestamp = "date \<times> nat"

definition sql_date :: "timestamp option \<Rightarrow> date option" where
  "sql_date t = map_option fst t"

definition FORMAT_DATE_Ym :: "date option \<Rightarrow> string option" where
  "FORMAT_DATE_Ym d = map_option format_Ym d"

definition timestamp_literal :: "date \<Rightarrow> timestamp" where
  "timestamp_literal d = (d, 0)"

section \<open>Tables and data frames\<close>

text \<open>A row of \<^verbatim>\<open>INFORMATION_SCHEMA.JOBS_BY_ORGANIZATION\<close>, with the columns the queries read.\<close>

record job =
  j_job_id :: "string option"
  j_job_type :: "string option"
  j_state :: "string option"
  j_start_time :: "timestamp option"
  j_project_id :: "string option"
  j_user_email :: "string option"
  j_total_bytes_billed :: "int option"
  j_total_bytes_processed :: "int option"
  j_cache_hit :: "bool option"

text \<open>The rows of the three reports, by their columns.\<close>

record storage_usage_row =
  s_project :: string
  s_month :: string
  s_cloud_storage_bytes :: int
  s_bigquery_storage_bytes :: int

record detail_row =
  d_project_id :: "string option"
  d_month :: "string option"
  d_start_time :: "timestamp option"
  d_user_email :: "string option"
  d_job_id :: "string option"
  d_bytes_processed_in_gb :: "rat option"
  d_cost_in_dollar :: "rat option"

record per_project_row =
  p_project_id :: "string option"
  p_user_email :: "string option"
  p_month :: "string option"
  p_num_queries :: nat
  p_bytes_processed_in_gb :: "rat option"
  p_cost_in_dollar :: "rat option"

datatype row =
  StorageUsage storage_usage_row
| JobsCostsDetail detail_row
| JobsCostsPerProject per_project_row

type_synonym dataframe = "row list"

fun month_of :: "row \<Rightarrow> string option" where
  "month_of (StorageUsage r) = Some (s_month r)"
| "month_of (JobsCostsDetail r) = d_month r"
| "month_of (JobsCostsPerProject r) = p_month r"

text \<open>A BigQuery table: its size in bytes (\<^verbatim>\<open>table.num_bytes\<close>) and its rows.\<close>

record bq_table =
  num_bytes :: int
  table_rows :: "row list"

section \<open>The services\<close>

text \<open>
  The state outside the program: the BigQuery tables by their id
  \<^verbatim>\<open>project.dataset.table\<close>, the rows of the jobs view, the Cloud Storage buckets with
  the name and size of each blob, the calls that fail for a reason that is not a missing
  resource, and the bytes BigQuery accounts for a loaded row. The queries the program
  issues itself are not added to the jobs view.
\<close>

datatype statement =
  SelectMonth string string
| SelectJobsCostsPerProject date date
| SelectJobsCostsDetail date date

datatype api_call =
  GetTable string
| Query statement
| ListBlobs string string
| ToGbq string string

record world =
  tables :: "string \<rightharpoonup> bq_table"
  jobs :: "job list"
  buckets :: "string \<rightharpoonup> (string \<times> int) list"
  faults :: "api_call \<Rightarrow> fault option"
  row_bytes :: "row \<Rightarrow> int"

text \<open>A computation reads and changes the world and returns a value or raises.\<close>

type_synonym 'a io = "world \<Rightarrow> (error + 'a) \<times> world"

definition io_return :: "'a \<Rightarrow> 'a io" where
  "io_return x w = (Inr x, w)"

definition io_bind :: "'a io \<Rightarrow> ('a \<Rightarrow> 'b io) \<Rightarrow> 'b io" where
  "io_bind m f w = (case m w of (Inl e, w') \<Rightarrow> (Inl e, w') | (Inr x, w') \<Rightarrow> f x w')"

text \<open>\<^verbatim>\<open>try: body except NotFound: handler\<close>.\<close>

definition except_NotFound :: "'a io \<Rightarrow> 'a io \<Rightarrow> 'a io" where
  "except_NotFound body handler w =
     (case body w of (Inl NotFound, w') \<Rightarrow> handler w' | r \<Rightarrow> r)"

text \<open>A call that only reads: it fails with its fault, if it has one, or answers from the world.\<close>

definition api_read :: "api_call \<Rightarrow> (world \<Rightarrow> error + 'a) \<Rightarrow> 'a io" where
  "api_read c f w =
     (case faults w c of Some x \<Rightarrow> (Inl (ServiceError x), w) | None \<Rightarrow> (f w, w))"

text \<open>\<^verbatim>\<open>BQ.get_table(table_id)\<close>: raises NotFound if the table does not exist.\<close>

definition BQ_get_table :: "string \<Rightarrow> bq_table io" where
  "BQ_get_table table_id =
     api_read (GetTable table_id)
       (\<lambda>w. case tables w table_id of None \<Rightarrow> Inl NotFound | Some t \<Rightarrow> Inr t)"

text \<open>
  \<^verbatim>\<open>BQ.query("SELECT 1 FROM `table_id` WHERE month = 'key'").result().total_rows\<close>:
  the number of rows of the table whose month is the key.
\<close>

definition BQ_query_month :: "string \<Rightarrow> string \<Rightarrow> nat io" where
  "BQ_query_month table_id key =
     api_read (Query (SelectMonth table_id key))
       (\<lambda>w. case tables w table_id of
              None \<Rightarrow> Inl NotFound
            | Some t \<Rightarrow>
                Inr (length (filter (\<lambda>r. sql_true (sql_eq (month_of r) (Some key))) (table_rows t))))"

text \<open>\<^verbatim>\<open>CS.list_blobs(bucket, prefix=p)\<close>: the blobs of the bucket whose name starts with \<open>p\<close>.\<close>

definition CS_list_blobs :: "string \<Rightarrow> string \<Rightarrow> (string \<times> int) list io" where
  "CS_list_blobs bucket p =
     api_read (ListBlobs bucket p)
       (\<lambda>w. case buckets w bucket of
              None \<Rightarrow> Inl NotFound
            | Some blobs \<Rightarrow> Inr (filter (\<lambda>blob. take (length p) (fst blob) = p) blobs))"

text \<open>
  \<^verbatim>\<open>df.to_gbq(destination_table=..., project_id=..., if_exists="append")\<close>: the table
  is created if it does not exist and the rows of the frame are appended.
\<close>

definition append_rows :: "(row \<Rightarrow> int) \<Rightarrow> bq_table \<Rightarrow> dataframe \<Rightarrow> bq_table" where
  "append_rows bytes_of t df =
     \<lparr>num_bytes = num_bytes t + sum_list (map bytes_of df), table_rows = table_rows t @ df\<rparr>"

definition to_gbq :: "dataframe \<Rightarrow> string \<Rightarrow> string \<Rightarrow> unit io" where
  "to_gbq df destination_table project w =
     (let table_id = project @ ''.'' @ destination_table in
      case faults w (ToGbq destination_table project) of
        Some x \<Rightarrow> (Inl (ServiceError x), w)
      | None \<Rightarrow>
          (Inr (),
           w\<lparr>tables := (tables w)(table_id \<mapsto>
                append_rows (row_bytes w)
                  (case tables w table_id of
                     None \<Rightarrow> \<lparr>num_bytes = 0, table_rows = []\<rparr>
                   | Some t \<Rightarrow> t) df)\<rparr>))"

section \<open>The cost queries\<close>

text \<open>
  The \<^verbatim>\<open>DECLARE\<close>d constants of both queries (lines 40 to 43 and 73 to 76):
  \<^verbatim>\<open>cost_factor\<close> is a FLOAT64, the quotient of two INT64s.
\<close>

definition gb_divisor :: int where
  "gb_divisor = 1024 * 1024 * 1024"

definition tb_divisor :: int where
  "tb_divisor = gb_divisor * 1024"

definition cost_per_tb_in_dollar :: int where
  "cost_per_tb_in_dollar = 5"

definition cost_factor :: rat where
  "cost_factor = of_int cost_per_tb_in_dollar / of_int tb_divisor"

text \<open>
  Lines 57 and 84, the same expression in both queries:
  \<^verbatim>\<open>IF(cache_hit != true, ROUND(total_bytes_processed * cost_factor,4),0)\<close>.
\<close>

definition cost_in_dollar :: "job \<Rightarrow> rat option" where
  "cost_in_dollar j =
     sql_if (sql_ne (j_cache_hit j) (Some True))
       (sql_round (sql_mul (map_option of_int (j_total_bytes_processed j)) (Some cost_factor)) 4)
       (Some 0)"

text \<open>\<^verbatim>\<open>FORMAT_DATE("%Y%m", date(start_time))\<close>, lines 54 and 79.\<close>

definition month_column :: "job \<Rightarrow> string option" where
  "month_column j = FORMAT_DATE_Ym (sql_date (j_start_time j))"

text \<open>
  The \<^verbatim>\<open>WHERE\<close> clause of both queries (lines 59 to 61 and 86 to 88). The two bounds
  are the dates that the program prints with \<^verbatim>\<open>strftime('%Y-%m-%d')\<close>.
\<close>

definition jobs_where :: "date \<Rightarrow> date \<Rightarrow> job \<Rightarrow> bool option" where
  "jobs_where first_day last_day j =
     sql_and
       (sql_and (sql_eq (j_job_type j) (Some ''QUERY'')) (sql_eq (j_state j) (Some ''DONE'')))
       (sql_between (j_start_time j)
          (Some (timestamp_literal first_day)) (Some (timestamp_literal last_day)))"

definition selected_jobs :: "date \<Rightarrow> date \<Rightarrow> job list \<Rightarrow> job list" where
  "selected_jobs first_day last_day js = filter (\<lambda>j. sql_true (jobs_where first_day last_day j)) js"

subsection \<open>Per-query detail (lines 78 to 89)\<close>

definition detail_select :: "job \<Rightarrow> detail_row" where
  "detail_select j =
     \<lparr>d_project_id = j_project_id j,
      d_month = month_column j,
      d_start_time = j_start_time j,
      d_user_email = j_user_email j,
      d_job_id = j_job_id j,
      d_bytes_processed_in_gb =
        sql_round (sql_div (map_option of_int (j_total_bytes_billed j)) (Some (of_int gb_divisor))) 2,
      d_cost_in_dollar = cost_in_dollar j\<rparr>"

text \<open>\<^verbatim>\<open>ORDER BY project_id, start_time, user_email\<close>: ascending, NULLs first.\<close>

definition detail_order :: "detail_row \<Rightarrow> string option \<times> timestamp option \<times> string option" where
  "detail_order r = (d_project_id r, d_start_time r, d_user_email r)"

definition jobs_costs_detail_query :: "date \<Rightarrow> date \<Rightarrow> job list \<Rightarrow> detail_row list" where
  "jobs_costs_detail_query first_day last_day js =
     sort_key detail_order (map detail_select (selected_jobs first_day last_day js))"

subsection \<open>Per-project summary (lines 45 to 62)\<close>

text \<open>The rows of the inner \<^verbatim>\<open>SELECT\<close>, lines 52 to 61.\<close>

record inner_row =
  i_start_time :: "timestamp option"
  i_project_id :: "string option"
  i_month :: "string option"
  i_user_email :: "string option"
  i_total_bytes_billed :: "int option"
  i_cost_in_dollar :: "rat option"

definition inner_select :: "job \<Rightarrow> inner_row" where
  "inner_select j =
     \<lparr>i_start_time = j_start_time j,
      i_project_id = j_project_id j,
      i_month = month_column j,
      i_user_email = j_user_email j,
      i_total_bytes_billed = j_total_bytes_billed j,
      i_cost_in_dollar = cost_in_dollar j\<rparr>"

text \<open>\<^verbatim>\<open>GROUP BY user_email, project_id, month\<close>: NULLs form a group of their own.\<close>

definition group_key :: "inner_row \<Rightarrow> string option \<times> string option \<times> string option" where
  "group_key r = (i_user_email r, i_project_id r, i_month r)"

text \<open>The outer \<^verbatim>\<open>SELECT\<close> on one group, lines 45 to 50.\<close>

definition aggregate :: "string option \<times> string option \<times> string option \<Rightarrow> inner_row list \<Rightarrow> per_project_row" where
  "aggregate k grp =
     \<lparr>p_project_id = fst (snd k),
      p_user_email = fst k,
      p_month = snd (snd k),
      p_num_queries = length grp,
      p_bytes_processed_in_gb =
        sql_round (sql_div (map_option of_int (sql_sum (map i_total_bytes_billed grp)))
                     (Some (of_int gb_divisor))) 2,
      p_cost_in_dollar = sql_round (sql_sum (map i_cost_in_dollar grp)) 4\<rparr>"

text \<open>One output row for each key, in the order in which the keys first occur.\<close>

definition group_by :: "inner_row list \<Rightarrow> per_project_row list" where
  "group_by rs =
     map (\<lambda>k. aggregate k (filter (\<lambda>r. group_key r = k) rs)) (remdups (map group_key rs))"

definition jobs_costs_per_project_query :: "date \<Rightarrow> date \<Rightarrow> job list \<Rightarrow> per_project_row list" where
  "jobs_costs_per_project_query first_day last_day js =
     group_by (map inner_select (selected_jobs first_day last_day js))"

section \<open>The functions of \<^verbatim>\<open>main.py\<close>\<close>

text \<open>Calls of the logger are left out: no function reads the log.\<close>

definition generate_bq_jobs_costs_per_project :: "globals \<Rightarrow> dataframe io" where
  "generate_bq_jobs_costs_per_project g =
     api_read
       (Query (SelectJobsCostsPerProject
                 (date_first_day_previous_month g) (date_last_day_previous_month g)))
       (\<lambda>w. Inr (map JobsCostsPerProject
                   (jobs_costs_per_project_query
                      (date_first_day_previous_month g) (date_last_day_previous_month g) (jobs w))))"

definition generate_bq_jobs_costs_detail :: "globals \<Rightarrow> dataframe io" where
  "generate_bq_jobs_costs_detail g =
     api_read
       (Query (SelectJobsCostsDetail
                 (date_first_day_previous_month g) (date_last_day_previous_month g)))
       (\<lambda>w. Inr (map JobsCostsDetail
                   (jobs_costs_detail_query
                      (date_first_day_previous_month g) (date_last_day_previous_month g) (jobs w))))"

text \<open>The loop of lines 101 to 120 over the projects that are left, with \<open>data\<close> so far.\<close>

fun storage_usage_loop :: "globals \<Rightarrow> string list \<Rightarrow> storage_usage_row list \<Rightarrow> storage_usage_row list io" where
  "storage_usage_loop g [] data = io_return data"
| "storage_usage_loop g (project # rest) data =
     io_bind (BQ_get_table (project_id g @ ''.'' @ project @ ''.'' @ main_table_name g)) (\<lambda>table.
     io_bind (CS_list_blobs (data_bucket_name g) project) (\<lambda>blobs.
       storage_usage_loop g rest
         (data @ [\<lparr>s_project = project,
                   s_month = str_last_month g,
                   s_cloud_storage_bytes = foldl (\<lambda>cs_project_size blob. cs_project_size + snd blob) 0 blobs,
                   s_bigquery_storage_bytes = num_bytes table\<rparr>])))"

definition generate_storage_usage :: "globals \<Rightarrow> dataframe io" where
  "generate_storage_usage g =
     io_bind (storage_usage_loop g (bigquery_projects g) []) (\<lambda>data.
       io_return (map StorageUsage data))"

definition can_insert_data :: "globals \<Rightarrow> string \<Rightarrow> bool io" where
  "can_insert_data g table_name =
     (let table_id = billing_project_id g @ ''.'' @ billing_dataset_id g @ ''.'' @ table_name in
      except_NotFound
        (io_bind (BQ_get_table table_id) (\<lambda>_.
         io_bind (BQ_query_month table_id (str_last_month g)) (\<lambda>total_rows.
           if total_rows = 0 then io_return True else io_return False)))
        (io_return True))"

definition store_df_in_bq :: "globals \<Rightarrow> dataframe \<Rightarrow> string \<Rightarrow> unit io" where
  "store_df_in_bq g df table_name =
     to_gbq df (billing_dataset_id g @ ''.'' @ table_name) (billing_project_id g)"

text \<open>The dictionary of line 177, in its order of insertion.\<close>

definition reports :: "(string \<times> (globals \<Rightarrow> dataframe io)) list" where
  "reports =
     [(''storage_usage'', generate_storage_usage),
      (''bq_jobs_costs_detail'', generate_bq_jobs_costs_detail),
      (''bq_jobs_costs_per_project'', generate_bq_jobs_costs_per_project)]"

text \<open>The body of the loop of lines 183 to 188 for one report.\<close>

definition run_report :: "globals \<Rightarrow> string \<Rightarrow> (globals \<Rightarrow> dataframe io) \<Rightarrow> unit io" where
  "run_report g table_name func_ref =
     io_bind (can_insert_data g table_name) (\<lambda>ok.
       if ok then io_bind (func_ref g) (\<lambda>df. store_df_in_bq g df table_name)
       else io_return ())"

fun run_reports :: "globals \<Rightarrow> (string \<times> (globals \<Rightarrow> dataframe io)) list \<Rightarrow> unit io" where
  "run_reports g [] = io_return ()"
| "run_reports g ((table_name, func_ref) # rest) =
     io_bind (run_report g table_name func_ref) (\<lambda>_. run_reports g rest)"

definition main :: "globals \<Rightarrow> unit io" where
  "main g = run_reports g reports"

section \<open>Vocabulary of the statements\<close>

text \<open>The id of a table of the billing dataset, as line 135 builds it.\<close>

definition table_id :: "globals \<Rightarrow> string \<Rightarrow> string" where
  "table_id g table_name = billing_project_id g @ ''.'' @ billing_dataset_id g @ ''.'' @ table_name"

text \<open>The rows of a table that carry a month.\<close>

definition month_rows :: "string \<Rightarrow> bq_table \<Rightarrow> row list" where
  "month_rows key t = filter (\<lambda>r. month_of r = Some key) (table_rows t)"

text \<open>Two worlds with the same services: they differ at most in their tables.\<close>

definition same_services :: "world \<Rightarrow> world \<Rightarrow> bool" where
  "same_services w w' =
     (jobs w' = jobs w \<and> buckets w' = buckets w \<and> faults w' = faults w \<and> row_bytes w' = row_bytes w)"

text \<open>
  What the reruns need of a report generator \<open>f\<close>: it only reads, and every row of its
  frame carries the month of the run.
\<close>

definition reads_only :: "globals \<Rightarrow> (globals \<Rightarrow> dataframe io) \<Rightarrow> bool" where
  "reads_only g f = (\<forall>w. snd (f g w) = w)"

definition rows_of_month :: "globals \<Rightarrow> (globals \<Rightarrow> dataframe io) \<Rightarrow> bool" where
  "rows_of_month g f =
     (\<forall>w df. fst (f g w) = Inr df \<longrightarrow> list_all (\<lambda>r. month_of r = Some (str_last_month g)) df)"

text \<open>The date variables of one month: both days lie in the month that the key names.\<close>

definition period_globals :: "globals \<Rightarrow> bool" where
  "period_globals g =
     (year (date_first_day_previous_month g) = year (date_last_day_previous_month g)
      \<and> month (date_first_day_previous_month g) = month (date_last_day_previous_month g)
      \<and> str_last_month g = format_Ym (date_first_day_previous_month g))"

text \<open>The key of the group of a job, and the key that a row of the summary carries.\<close>

definition job_key :: "job \<Rightarrow> string option \<times> string option \<times> string option" where
  "job_key j = (j_user_email j, j_project_id j, month_column j)"

definition row_key :: "per_project_row \<Rightarrow> string option \<times> string option \<times> string option" where
  "row_key r = (p_user_email r, p_project_id r, p_month r)"

text \<open>The three passes of the loop of \<open>main\<close>.\<close>

definition step1 :: "globals \<Rightarrow> unit io" where
  "step1 g = run_report g ''storage_usage'' generate_storage_usage"

definition step2 :: "globals \<Rightarrow> unit io" where
  "step2 g = run_report g ''bq_jobs_costs_detail'' generate_bq_jobs_costs_detail"

definition step3 :: "globals \<Rightarrow> unit io" where
  "step3 g = run_report g ''bq_jobs_costs_per_project'' generate_bq_jobs_costs_per_project"

section \<open>Example data\<close>

text \<open>A run on 2024-03-15 with two tracked datasets.\<close>

definition example_environ :: "string \<rightharpoonup> string" where
  "example_environ =
     [''PROJECT_ID'' \<mapsto> ''core'', ''BUCKET_NAME'' \<mapsto> ''data'', ''MAIN_TABLE_NAME'' \<mapsto> ''main'',
      ''BIQUERY_PROJECTS'' \<mapsto> ''sales,hr'', ''BILLING_PROJECT_ID'' \<mapsto> ''bill'',
      ''BILLING_DATASET_ID'' \<mapsto> ''reports'']"

definition example_globals :: globals where
  "example_globals =
     \<lparr>project_id = ''core'', data_bucket_name = ''data'', main_table_name = ''main'',
      bigquery_projects = [''sales'', ''hr''],
      billing_project_id = ''bill'', billing_dataset_id = ''reports'',
      date_tc = (2024, 3, 15),
      date_last_day_previous_month = (2024, 2, 29),
      date_first_day_previous_month = (2024, 2, 1),
      str_last_month = ''202402''\<rparr>"

text \<open>
  Two queries of one user in one project, each of 1 TiB and neither from the cache; the
  later one comes first in the view.
\<close>

definition job_a :: job where
  "job_a =
     \<lparr>j_job_id = Some ''job_a'', j_job_type = Some ''QUERY'', j_state = Some ''DONE'',
      j_start_time = Some ((2024, 2, 10), 0), j_project_id = Some ''sales'',
      j_user_email = Some ''ann@example.com'',
      j_total_bytes_billed = Some 1099511627776,
      j_total_bytes_processed = Some 1099511627776,
      j_cache_hit = Some False\<rparr>"

definition job_b :: job where
  "job_b = job_a\<lparr>j_job_id := Some ''job_b'', j_start_time := Some ((2024, 2, 3), 3600000000)\<rparr>"

text \<open>A query of 1 TiB whose \<^verbatim>\<open>cache_hit\<close> is NULL.\<close>

definition job_null_cache_hit :: job where
  "job_null_cache_hit = job_a\<lparr>j_job_id := Some ''job_null'', j_cache_hit := None\<rparr>"

text \<open>A query that started at noon of the last day of the month, 2024-02-29 12:00:00 UTC.\<close>

definition job_last_day :: job where
  "job_last_day =
     job_a\<lparr>j_job_id := Some ''job_last_day'', j_start_time := Some ((2024, 2, 29), 43200000000)\<rparr>"

definition no_faults :: "api_call \<Rightarrow> fault option" where
  "no_faults c = None"

definition example_row_bytes :: "row \<Rightarrow> int" where
  "example_row_bytes r = 32"

text \<open>Before the first run: both tracked tables exist, the billing dataset has no table.\<close>

definition example_world :: world where
  "example_world =
     \<lparr>tables =
        [''core.sales.main'' \<mapsto> \<lparr>num_bytes = 1000, table_rows = []\<rparr>,
         ''core.hr.main'' \<mapsto> \<lparr>num_bytes = 500, table_rows = []\<rparr>],
      jobs = [job_a, job_b],
      buckets =
        [''data'' \<mapsto> [(''sales/a.csv'', 10), (''sales/b.csv'', 20), (''sales/c.csv'', 30),
                     (''hr/a.csv'', 5)]],
      faults = no_faults,
      row_bytes = example_row_bytes\<rparr>"

text \<open>The same, with the storage report of February 2024 already stored.\<close>

definition world_with_february :: world where
  "world_with_february =
     example_world\<lparr>tables := (tables example_world)
       (''bill.reports.storage_usage'' \<mapsto>
          \<lparr>num_bytes = 32,
           table_rows =
             [StorageUsage \<lparr>s_project = ''sales'', s_month = ''202402'',
                             s_cloud_storage_bytes = 60, s_bigquery_storage_bytes = 1000\<rparr>]\<rparr>)\<rparr>"


text \<open>The same as the first, without the table of the tracked dataset \<^verbatim>\<open>hr\<close>.\<close>

definition world_missing_table :: world where
  "world_missing_table =
     example_world\<lparr>tables := [''core.sales.main'' \<mapsto> \<lparr>num_bytes = 1000, table_rows = []\<rparr>]\<rparr>"

text \<open>The same as the first, in a month without queries.\<close>

definition world_without_jobs :: world where
  "world_without_jobs = example_world\<lparr>jobs := []\<rparr>"

text \<open>The storage report of the example, and the world after a run in the month without queries.\<close>

definition storage_rows_february :: "storage_usage_row list" where
  "storage_rows_february =
     [\<lparr>s_project = ''sales'', s_month = ''202402'',
       s_cloud_storage_bytes = 60, s_bigquery_storage_bytes = 1000\<rparr>,
      \<lparr>s_project = ''hr'', s_month = ''202402'',
       s_cloud_storage_bytes = 5, s_bigquery_storage_bytes = 500\<rparr>]"

definition world_after_run_without_jobs :: world where
  "world_after_run_without_jobs =
     world_without_jobs\<lparr>tables := (tables world_without_jobs)
       (''bill.reports.storage_usage'' \<mapsto>
          \<lparr>num_bytes = 64, table_rows = map StorageUsage storage_rows_february\<rparr>,
        ''bill.reports.bq_jobs_costs_detail'' \<mapsto> \<lparr>num_bytes = 0, table_rows = []\<rparr>,
        ''bill.reports.bq_jobs_costs_per_project'' \<mapsto> \<lparr>num_bytes = 0, table_rows = []\<rparr>)\<rparr>"

section \<open>The period\<close>

lemma date_sub_days_same_month:
  "k < d \<Longrightarrow> date_sub_days (y, m, d) k = Inr (y, m, d - k)"
proof (induction k arbitrary: d)
  case 0
  then show ?case by simp
next
  case (Suc k)
  then have "1 < d" and "k < d - 1" by simp_all
  then show ?case using Suc.IH [of "d - 1"] by simp
qed

lemma date_sub_days_day:
  assumes "1 \<le> d"
  shows "date_sub_days (y, m, d) d = prev_day (y, m, 1)"
proof -
  obtain k where d: "d = Suc k" using assms by (cases d) auto
  have "date_sub_days (y, m, Suc k) (Suc k) = prev_day (y, m, 1)"
  proof (induction k)
    case 0
    show ?case by (simp split: sum.splits)
  next
    case (Suc k)
    then show ?case by simp
  qed
  then show ?thesis by (simp add: d)
qed

lemma days_in_month_pos: "1 \<le> days_in_month y m"
  by (simp add: days_in_month_def)

lemma date_sub_days_to_first:
  "date_sub_days (py, pm, days_in_month py pm) (days_in_month py pm - Suc 0) = Inr (py, pm, Suc 0)"
  using date_sub_days_same_month [of "days_in_month py pm - 1" "days_in_month py pm" py pm]
    days_in_month_pos [of py pm] by simp

lemma date_sub_days_to_last:
  assumes "1 \<le> d" and "1 \<le> m" and "1 \<le> y" and "\<not> (y = 1 \<and> m = 1)"
  shows "date_sub_days (y, m, d) d =
     (if m = 1 then Inr (y - 1, 12, days_in_month (y - 1) 12)
      else Inr (y, m - 1, days_in_month y (m - 1)))"
  using assms by (auto simp: date_sub_days_day days_in_month_def)

lemma previous_month_eq:
  assumes "valid_date (y, m, d)" and "\<not> (y = 1 \<and> m = 1)"
  shows "previous_month (y, m, d) =
     (if m = 1
      then Inr ((y - 1, 12, 1), (y - 1, 12, days_in_month (y - 1) 12), format_Ym (y - 1, 12, 1))
      else Inr ((y, m - 1, 1), (y, m - 1, days_in_month y (m - 1)), format_Ym (y, m - 1, 1)))"
proof -
  from assms have "1 \<le> d" and "1 \<le> m" and "1 \<le> y" by simp_all
  from date_sub_days_to_last [OF this assms(2)] show ?thesis
    unfolding previous_month_def by (simp add: sum_bind_def date_sub_days_to_first)
qed




section \<open>Facts about the SQL expressions\<close>

lemma sql_true_sql_eq_Some [simp]: "sql_true (sql_eq a (Some k)) \<longleftrightarrow> a = Some k"
  by (cases a) (auto simp: sql_true_def sql_eq_def)

lemma cost_in_dollar_cases:
  "cost_in_dollar j =
     (case j_cache_hit j of
        Some False \<Rightarrow>
          map_option (\<lambda>b. round_to (of_int b * (5 / 2 ^ 40)) 4) (j_total_bytes_processed j)
      | _ \<Rightarrow> Some 0)"
  by (simp add: cost_in_dollar_def sql_if_def sql_true_def sql_ne_def sql_round_def sql_mul_def
      cost_factor_def cost_per_tb_in_dollar_def tb_divisor_def gb_divisor_def
      map_option_case split: option.splits bool.splits)

lemma floor_int_plus_half: "\<lfloor>(of_int k :: rat) + 1 / 2\<rfloor> = k"
  by (rule floor_unique) simp_all

lemma round_to_of_nonneg_int:
  assumes "0 \<le> k"
  shows "round_to (of_int k / 10 ^ n) n = of_int k / 10 ^ n"
proof -
  have "(0::rat) \<le> of_int k / 10 ^ n" using assms by simp
  then show ?thesis by (simp add: round_to_def floor_int_plus_half)
qed

lemma round_to_of_neg_int:
  assumes "0 < k"
  shows "round_to (- (of_int k / 10 ^ n)) n = - (of_int k / 10 ^ n)"
proof -
  have "(0::rat) < of_int k / 10 ^ n" using assms by simp
  then have "\<not> (0::rat) \<le> - (of_int k / 10 ^ n)" by simp
  then show ?thesis by (simp add: round_to_def floor_int_plus_half)
qed

text \<open>A rounded value is not changed by rounding it again to the same number of places.\<close>

lemma round_to_idem: "round_to (round_to x n) n = round_to x n"
proof (cases "0 \<le> x")
  case True
  then have "0 \<le> x * 10 ^ n + 1 / 2" by simp
  then have "0 \<le> \<lfloor>x * 10 ^ n + 1 / 2\<rfloor>" by (simp only: zero_le_floor of_int_0)
  from round_to_of_nonneg_int [OF this] True show ?thesis by (simp add: round_to_def)
next
  case False
  then have "0 \<le> - x * 10 ^ n" by (intro mult_nonneg_nonneg) simp_all
  then have "0 \<le> - x * 10 ^ n + 1 / 2" by simp
  then have k: "0 \<le> \<lfloor>- x * 10 ^ n + 1 / 2\<rfloor>" by (simp only: zero_le_floor of_int_0)
  show ?thesis
  proof (cases "\<lfloor>- x * 10 ^ n + 1 / 2\<rfloor> = 0")
    case True
    have "round_to 0 n = 0" using round_to_of_nonneg_int [of 0 n] by simp
    with True False show ?thesis by (simp add: round_to_def)
  next
    case nz: False
    with k have "0 < \<lfloor>- x * 10 ^ n + 1 / 2\<rfloor>" by (metis le_less)
    from round_to_of_neg_int [OF this] False show ?thesis by (simp add: round_to_def)
  qed
qed

lemma cost_in_dollar_rounded: "sql_round (cost_in_dollar j) 4 = cost_in_dollar j"
proof -
  have "round_to 0 4 = 0" using round_to_of_nonneg_int [of 0 4] by simp
  then show ?thesis
    by (simp add: cost_in_dollar_def sql_if_def sql_round_def round_to_idem option.map_comp comp_def)
qed

text \<open>The rows that the \<^verbatim>\<open>WHERE\<close> clause keeps.\<close>

lemma jobs_where_iff:
  "sql_true (jobs_where first_day last_day j) \<longleftrightarrow>
     j_job_type j = Some ''QUERY'' \<and> j_state j = Some ''DONE''
     \<and> (\<exists>t. j_start_time j = Some t \<and> (first_day, 0) \<le> t \<and> t \<le> (last_day, 0))"
  by (cases "j_job_type j"; cases "j_state j"; cases "j_start_time j")
     (auto simp: jobs_where_def sql_true_def sql_and_def sql_eq_def sql_between_def sql_le_def
        timestamp_literal_def)

lemma format_Ym_cong: "year d = year d' \<Longrightarrow> month d = month d' \<Longrightarrow> format_Ym d = format_Ym d'"
  by (cases d; cases d') simp

lemma between_same_month:
  assumes "year f = year l" and "month f = month l"
    and "(f, 0::nat) \<le> t" and "t \<le> (l, 0)"
  shows "year (fst t) = year f \<and> month (fst t) = month f"
  using assms by (cases f; cases l; cases t) (auto simp: less_eq_prod_def less_prod_def)

lemma month_column_selected:
  assumes "period_globals g"
    and "j \<in> set (selected_jobs (date_first_day_previous_month g) (date_last_day_previous_month g) js)"
  shows "month_column j = Some (str_last_month g)"
proof -
  from assms(2) obtain t where t: "j_start_time j = Some t"
    and lo: "(date_first_day_previous_month g, 0) \<le> t"
    and hi: "t \<le> (date_last_day_previous_month g, 0)"
    by (auto simp: selected_jobs_def jobs_where_iff)
  from assms(1) between_same_month [OF _ _ lo hi]
  have "format_Ym (fst t) = str_last_month g"
    by (auto simp: period_globals_def intro: format_Ym_cong)
  then show ?thesis by (simp add: month_column_def FORMAT_DATE_Ym_def sql_date_def t)
qed

lemma load_module_period:
  assumes "valid_date today" and "load_module environ today = Inr g"
  shows "period_globals g"
proof -
  obtain y m d where today: "today = (y, m, d)" by (cases today)
  from assms(2) obtain f l k where pm: "previous_month today = Inr (f, l, k)"
    and g: "date_first_day_previous_month g = f" "date_last_day_previous_month g = l"
      "str_last_month g = k"
    by (auto simp: load_module_def sum_bind_def split: sum.splits)
  have "\<not> (y = 1 \<and> m = 1)"
  proof
    assume "y = 1 \<and> m = 1"
    with assms(1) have "previous_month today = Inl OverflowError"
      by (simp add: today previous_month_def sum_bind_def date_sub_days_day)
    with pm show False by simp
  qed
  from previous_month_eq [OF assms(1) [unfolded today] this] pm
  show ?thesis by (auto simp: today period_globals_def g split: if_splits)
qed

text \<open>The values of the examples.\<close>

lemma round_to_5: "round_to 5 4 = 5"
  by code_simp

lemma round_to_10: "round_to 10 4 = 10"
  by code_simp

lemma round_to_2048: "round_to 2048 2 = 2048"
  by code_simp

lemma previous_month_2024_03_15:
  "previous_month (2024, 3, 15) = Inr ((2024, 2, 1), (2024, 2, 29), ''202402'')"
  using previous_month_eq [of 2024 3 15]
  by (simp add: days_in_month_def is_leap_def digit_char_def)

lemma load_module_example: "load_module example_environ (2024, 3, 15) = Inr example_globals"
  by (simp add: load_module_def example_environ_def sum_bind_def environ_get_def
      previous_month_2024_03_15 example_globals_def)

lemma table_id_example: "table_id example_globals n = ''bill.reports.'' @ n"
  by (simp add: table_id_def example_globals_def)

lemma str_last_month_example: "str_last_month example_globals = ''202402''"
  by (simp add: example_globals_def)

lemma selected_jobs_Nil: "selected_jobs f l [] = []"
  by (simp add: selected_jobs_def)

lemma selected_jobs_example:
  "selected_jobs (2024, 2, 1) (2024, 2, 29) [job_a, job_b] = [job_a, job_b]"
  by (simp add: selected_jobs_def jobs_where_iff job_a_def job_b_def)

lemma selected_jobs_last_day: "selected_jobs (2024, 2, 1) (2024, 2, 29) [job_last_day] = []"
  by (simp add: selected_jobs_def jobs_where_iff job_a_def job_last_day_def)

lemma cost_in_dollar_example: "cost_in_dollar job_a = Some 5" "cost_in_dollar job_b = Some 5"
  by (simp_all add: cost_in_dollar_cases job_a_def job_b_def round_to_5)

lemma month_column_example:
  "month_column job_a = Some ''202402''" "month_column job_b = Some ''202402''"
  by (simp_all add: month_column_def FORMAT_DATE_Ym_def sql_date_def job_a_def job_b_def
      digit_char_def)

section \<open>The idempotency gate\<close>

lemma BQ_get_table_eq:
  "BQ_get_table tid w =
     (case faults w (GetTable tid) of
        Some x \<Rightarrow> (Inl (ServiceError x), w)
      | None \<Rightarrow> (case tables w tid of None \<Rightarrow> (Inl NotFound, w) | Some t \<Rightarrow> (Inr t, w)))"
  by (simp add: BQ_get_table_def api_read_def split: option.splits)

lemma BQ_query_month_eq:
  "BQ_query_month tid key w =
     (case faults w (Query (SelectMonth tid key)) of
        Some x \<Rightarrow> (Inl (ServiceError x), w)
      | None \<Rightarrow> (case tables w tid of
                   None \<Rightarrow> (Inl NotFound, w)
                 | Some t \<Rightarrow> (Inr (length (month_rows key t)), w)))"
  by (simp add: BQ_query_month_def api_read_def month_rows_def split: option.splits)

text \<open>The gate, by cases on what the two calls find.\<close>

lemma can_insert_data_eq:
  "can_insert_data g table_name w =
     (case faults w (GetTable (table_id g table_name)) of
        Some x \<Rightarrow> (Inl (ServiceError x), w)
      | None \<Rightarrow>
         (case tables w (table_id g table_name) of
            None \<Rightarrow> (Inr True, w)
          | Some t \<Rightarrow>
             (case faults w (Query (SelectMonth (table_id g table_name) (str_last_month g))) of
                Some x \<Rightarrow> (Inl (ServiceError x), w)
              | None \<Rightarrow> (Inr (month_rows (str_last_month g) t = []), w))))"
  by (simp add: can_insert_data_def table_id_def Let_def except_NotFound_def io_bind_def
      io_return_def BQ_get_table_eq BQ_query_month_eq split: option.splits)

lemma can_insert_data_world: "snd (can_insert_data g table_name w) = w"
  by (simp add: can_insert_data_eq split: option.splits)

lemma can_insert_data_frame:
  assumes "faults w' = faults w" and "tables w' (table_id g name) = tables w (table_id g name)"
  shows "fst (can_insert_data g name w') = fst (can_insert_data g name w)"
  using assms by (simp add: can_insert_data_eq split: option.splits)

text \<open>
  Claim C1. When the two calls of the gate do not fail, \<open>can_insert_data\<close> returns True if
  the destination table does not exist, True if it exists and holds no row whose month is
  the key of the period, and False if it holds one or more such rows; this for every table
  name and every key.
\<close>

theorem can_insert_data_decides:
  assumes "faults w (GetTable (table_id g table_name)) = None"
    and "faults w (Query (SelectMonth (table_id g table_name) (str_last_month g))) = None"
  shows "fst (can_insert_data g table_name w) =
     (case tables w (table_id g table_name) of
        None \<Rightarrow> Inr True
      | Some t \<Rightarrow>
          if length (month_rows (str_last_month g) t) = 0 then Inr True else Inr False)"
  using assms by (simp add: can_insert_data_eq split: option.splits)

text \<open>
  The table of the example holds a row of 202402: the gate denies for the key 202402 and
  allows for the key 202403; it allows for a table that does not exist.
\<close>

theorem can_insert_data_examples:
  "fst (can_insert_data example_globals ''storage_usage'' world_with_february) = Inr False
   \<and> fst (can_insert_data (example_globals\<lparr>str_last_month := ''202403''\<rparr>) ''storage_usage''
           world_with_february) = Inr True
   \<and> fst (can_insert_data example_globals ''bq_jobs_costs_detail'' world_with_february) = Inr True"
proof -
  have nf: "faults world_with_february c = None" for c
    by (simp add: world_with_february_def example_world_def no_faults_def)
  have tid: "table_id (example_globals\<lparr>str_last_month := k\<rparr>) n = ''bill.reports.'' @ n" for k n
    by (simp add: table_id_def example_globals_def)
  have t: "tables world_with_february ''bill.reports.storage_usage'' =
      Some \<lparr>num_bytes = 32,
            table_rows =
              [StorageUsage \<lparr>s_project = ''sales'', s_month = ''202402'',
                 s_cloud_storage_bytes = 60, s_bigquery_storage_bytes = 1000\<rparr>]\<rparr>"
    "tables world_with_february ''bill.reports.bq_jobs_costs_detail'' = None"
    by (simp_all add: world_with_february_def example_world_def)
  show ?thesis
    using can_insert_data_decides [OF nf nf, of example_globals "''storage_usage''"]
      can_insert_data_decides [OF nf nf, of "example_globals\<lparr>str_last_month := ''202403''\<rparr>"
        "''storage_usage''"]
      can_insert_data_decides [OF nf nf, of example_globals "''bq_jobs_costs_detail''"]
    by (simp add: table_id_example tid t str_last_month_example month_rows_def)
qed



section \<open>The cost reports\<close>

text \<open>
  Claim C4, as the code has it. In both cost queries the cost of a query is 0 when
  \<^verbatim>\<open>cache_hit\<close> is true or NULL; when \<^verbatim>\<open>cache_hit\<close> is false it is
  \<^verbatim>\<open>total_bytes_processed\<close> times 5 / 2^40 rounded to 4 decimal places (NULL when
  \<^verbatim>\<open>total_bytes_processed\<close> is NULL).
\<close>

theorem cost_in_dollar_formula:
  "d_cost_in_dollar (detail_select j) = cost_in_dollar j
   \<and> i_cost_in_dollar (inner_select j) = cost_in_dollar j
   \<and> cost_in_dollar j =
       (case j_cache_hit j of
          Some False \<Rightarrow>
            map_option (\<lambda>b. round_to (of_int b * (5 / 2 ^ 40)) 4) (j_total_bytes_processed j)
        | _ \<Rightarrow> Some 0)"
  by (simp add: detail_select_def inner_select_def cost_in_dollar_cases)

text \<open>A query of 1 TiB that is not from the cache costs 5.\<close>

theorem cost_in_dollar_one_tebibyte:
  "j_cache_hit job_a = Some False \<and> j_total_bytes_processed job_a = Some (2 ^ 40)
   \<and> d_cost_in_dollar (detail_select job_a) = Some 5
   \<and> i_cost_in_dollar (inner_select job_a) = Some 5"
  using cost_in_dollar_formula [of job_a]
  by (simp add: job_a_def round_to_5)

text \<open>
  A query of 1 TiB whose \<^verbatim>\<open>cache_hit\<close> is NULL: it is not a cache hit, and its cost is
  0 and not the rounded product, which is 5.
\<close>

theorem cost_in_dollar_null_cache_hit:
  "j_cache_hit job_null_cache_hit \<noteq> Some True
   \<and> j_total_bytes_processed job_null_cache_hit = Some (2 ^ 40)
   \<and> round_to (of_int (2 ^ 40) * (5 / 2 ^ 40)) 4 = 5
   \<and> d_cost_in_dollar (detail_select job_null_cache_hit) = Some 0
   \<and> i_cost_in_dollar (inner_select job_null_cache_hit) = Some 0"
  by (simp add: detail_select_def inner_select_def cost_in_dollar_cases job_null_cache_hit_def
      job_a_def round_to_5)

text \<open>
  Claim C10. For a job whose \<^verbatim>\<open>cache_hit\<close> is NULL the condition
  \<^verbatim>\<open>cache_hit != true\<close> is NULL, the \<^verbatim>\<open>IF\<close> takes its second branch, and the cost
  is 0 in both queries, whatever \<^verbatim>\<open>total_bytes_processed\<close> is.
\<close>

theorem cost_in_dollar_of_null_cache_hit:
  assumes "j_cache_hit j = None"
  shows "sql_ne (j_cache_hit j) (Some True) = None
     \<and> d_cost_in_dollar (detail_select j) = Some 0
     \<and> i_cost_in_dollar (inner_select j) = Some 0"
  using assms
  by (simp add: detail_select_def inner_select_def cost_in_dollar_cases sql_ne_def)

theorem cost_in_dollar_of_null_cache_hit_example:
  "j_cache_hit job_null_cache_hit = None
   \<and> j_total_bytes_processed job_null_cache_hit = Some 1099511627776
   \<and> sql_ne (j_cache_hit job_null_cache_hit) (Some True) = None
   \<and> d_cost_in_dollar (detail_select job_null_cache_hit) = Some 0
   \<and> i_cost_in_dollar (inner_select job_null_cache_hit) = Some 0"
proof -
  have n: "j_cache_hit job_null_cache_hit = None"
    by (simp add: job_null_cache_hit_def)
  from cost_in_dollar_of_null_cache_hit [OF n] n show ?thesis
    by (simp add: job_null_cache_hit_def job_a_def)
qed

text \<open>
  Claim C6 at a job of the last day of the month. The run of 2024-03-15 reports February
  2024; a \<^verbatim>\<open>QUERY\<close> job in state \<^verbatim>\<open>DONE\<close> that started on 2024-02-29 at 12:00:00 UTC is
  in neither report, because the upper bound of \<^verbatim>\<open>BETWEEN\<close> is the literal
  \<^verbatim>\<open>'2024-02-29'\<close>, which is the first instant of that day.
\<close>

theorem last_day_job_left_out:
  "previous_month (2024, 3, 15) = Inr ((2024, 2, 1), (2024, 2, 29), ''202402'')
   \<and> j_job_type job_last_day = Some ''QUERY''
   \<and> j_state job_last_day = Some ''DONE''
   \<and> j_start_time job_last_day = Some ((2024, 2, 29), 43200000000)
   \<and> jobs_costs_detail_query (2024, 2, 1) (2024, 2, 29) [job_last_day] = []
   \<and> jobs_costs_per_project_query (2024, 2, 1) (2024, 2, 29) [job_last_day] = []"
  unfolding jobs_costs_detail_query_def jobs_costs_per_project_query_def selected_jobs_last_day
  by (simp add: previous_month_2024_03_15 group_by_def job_last_day_def job_a_def)

text \<open>
  Claim C7. The rows of the detail query are sorted in ascending order of
  (\<^verbatim>\<open>project_id\<close>, \<^verbatim>\<open>start_time\<close>, \<^verbatim>\<open>user_email\<close>); they are the selected rows, each
  as often as it is selected, in whatever order the view has them; and the frame of
  \<open>generate_bq_jobs_costs_detail\<close> holds these rows in this order.
\<close>

theorem detail_rows_sorted:
  "sorted (map detail_order (jobs_costs_detail_query first_day last_day js))
   \<and> mset (jobs_costs_detail_query first_day last_day js) =
       mset (map detail_select (selected_jobs first_day last_day js))
   \<and> (fst (generate_bq_jobs_costs_detail g w) = Inr df \<longrightarrow>
        df = map JobsCostsDetail
               (jobs_costs_detail_query (date_first_day_previous_month g)
                  (date_last_day_previous_month g) (jobs w)))"
  by (auto simp: jobs_costs_detail_query_def generate_bq_jobs_costs_detail_def api_read_def
      split: option.splits)

text \<open>The view of the example has the later job first; the report has the earlier one first.\<close>

theorem detail_rows_sorted_example:
  "map j_job_id [job_a, job_b] = [Some ''job_a'', Some ''job_b'']
   \<and> map d_job_id (jobs_costs_detail_query (2024, 2, 1) (2024, 2, 29) [job_a, job_b]) =
       [Some ''job_b'', Some ''job_a'']
   \<and> sorted (map detail_order (jobs_costs_detail_query (2024, 2, 1) (2024, 2, 29) [job_a, job_b]))"
proof -
  have o: "detail_order (detail_select job_a) =
      (Some ''sales'', Some ((2024, 2, 10), 0), Some ''ann@example.com'')"
    "detail_order (detail_select job_b) =
      (Some ''sales'', Some ((2024, 2, 3), 3600000000), Some ''ann@example.com'')"
    by (simp_all add: detail_order_def detail_select_def job_a_def job_b_def)
  have i: "d_job_id (detail_select job_a) = Some ''job_a''"
    "d_job_id (detail_select job_b) = Some ''job_b''"
    "j_job_id job_a = Some ''job_a''" "j_job_id job_b = Some ''job_b''"
    by (simp_all add: detail_select_def job_a_def job_b_def)
  have "map d_job_id (jobs_costs_detail_query (2024, 2, 1) (2024, 2, 29) [job_a, job_b]) =
       [Some ''job_b'', Some ''job_a'']"
    unfolding jobs_costs_detail_query_def selected_jobs_example by (simp add: o i)
  with detail_rows_sorted [of "(2024, 2, 1)" "(2024, 2, 29)" "[job_a, job_b]"] i
  show ?thesis by simp
qed

subsection \<open>The summary\<close>

lemma group_key_inner_select [simp]: "group_key (inner_select j) = job_key j"
  by (simp add: group_key_def inner_select_def job_key_def)

lemma row_key_aggregate [simp]: "row_key (aggregate k grp) = k"
  by (simp add: row_key_def aggregate_def)

lemma filter_map_inner:
  "filter (\<lambda>r. group_key r = k) (map inner_select js) = map inner_select (filter (\<lambda>j. job_key j = k) js)"
  by (simp add: filter_map comp_def)

lemma per_project_query_eq:
  "jobs_costs_per_project_query f l js =
     map (\<lambda>k. aggregate k (map inner_select (filter (\<lambda>j. job_key j = k) (selected_jobs f l js))))
       (remdups (map job_key (selected_jobs f l js)))"
  by (simp add: jobs_costs_per_project_query_def group_by_def filter_map_inner comp_def)

lemma per_project_row:
  assumes "r \<in> set (jobs_costs_per_project_query f l js)"
  shows "r = aggregate (row_key r)
           (map inner_select (filter (\<lambda>j. job_key j = row_key r) (selected_jobs f l js)))
         \<and> filter (\<lambda>j. job_key j = row_key r) (selected_jobs f l js) \<noteq> []"
proof -
  from assms obtain k where k: "k \<in> set (map job_key (selected_jobs f l js))"
    and r: "r = aggregate k (map inner_select (filter (\<lambda>j. job_key j = k) (selected_jobs f l js)))"
    by (auto simp: per_project_query_eq)
  from r have "row_key r = k" by simp
  moreover from k have "filter (\<lambda>j. job_key j = k) (selected_jobs f l js) \<noteq> []"
    by (auto simp: filter_empty_conv)
  ultimately show ?thesis using r by simp
qed

text \<open>
  Claim C5. A row of the summary stands for the group of the selected jobs with its key
  (\<^verbatim>\<open>user_email\<close>, \<^verbatim>\<open>project_id\<close>, \<^verbatim>\<open>month\<close>); the summary has one row for each key that
  occurs. The cost of the row is the sum of the costs of the jobs of the group, each of
  them already rounded to 4 decimal places, rounded to 4 decimal places; its gigabytes are
  the sum of the billed bytes of the group divided by 2^30 and rounded to 2 decimal places;
  its number of queries is the size of the group.
\<close>

theorem per_project_aggregation:
  assumes "r \<in> set (jobs_costs_per_project_query first_day last_day js)"
  shows "let grp = filter (\<lambda>j. job_key j = row_key r) (selected_jobs first_day last_day js) in
     grp \<noteq> []
     \<and> map row_key (jobs_costs_per_project_query first_day last_day js) =
         remdups (map job_key (selected_jobs first_day last_day js))
     \<and> p_num_queries r = length grp
     \<and> p_cost_in_dollar r = sql_round (sql_sum (map cost_in_dollar grp)) 4
     \<and> list_all (\<lambda>j. sql_round (cost_in_dollar j) 4 = cost_in_dollar j) grp
     \<and> p_bytes_processed_in_gb r =
         sql_round (sql_div (map_option of_int (sql_sum (map j_total_bytes_billed grp)))
                      (Some (2 ^ 30))) 2"
proof -
  let ?grp = "filter (\<lambda>j. job_key j = row_key r) (selected_jobs first_day last_day js)"
  have gb: "(of_int gb_divisor :: rat) = 2 ^ 30" by (simp add: gb_divisor_def)
  from per_project_row [OF assms]
  have r: "r = aggregate (row_key r) (map inner_select ?grp)" and ne: "?grp \<noteq> []" by simp_all
  have "p_num_queries r = length ?grp"
    using arg_cong [OF r, of p_num_queries] by (simp add: aggregate_def)
  moreover have "p_cost_in_dollar r = sql_round (sql_sum (map cost_in_dollar ?grp)) 4"
    using arg_cong [OF r, of p_cost_in_dollar] by (simp add: aggregate_def comp_def inner_select_def)
  moreover have "p_bytes_processed_in_gb r =
      sql_round (sql_div (map_option of_int (sql_sum (map j_total_bytes_billed ?grp))) (Some (2 ^ 30))) 2"
    using arg_cong [OF r, of p_bytes_processed_in_gb]
    by (simp add: aggregate_def comp_def inner_select_def gb)
  moreover have "map row_key (jobs_costs_per_project_query first_day last_day js) =
      remdups (map job_key (selected_jobs first_day last_day js))"
    by (simp add: per_project_query_eq comp_def)
  ultimately show ?thesis
    using ne by (simp add: Let_def list_all_iff cost_in_dollar_rounded)
qed

text \<open>
  The example of the specification: two queries of 1 TiB of one user in one project cost
  5.0000 each, and the row of the summary has the cost 10, 2048 gigabytes and 2 queries.
\<close>

lemma per_project_example:
  "jobs_costs_per_project_query (2024, 2, 1) (2024, 2, 29) [job_a, job_b] =
   [\<lparr>p_project_id = Some ''sales'', p_user_email = Some ''ann@example.com'',
     p_month = Some ''202402'', p_num_queries = 2, p_bytes_processed_in_gb = Some 2048,
     p_cost_in_dollar = Some 10\<rparr>]"
proof -
  have k: "job_key job_a = (Some ''ann@example.com'', Some ''sales'', Some ''202402'')"
    "job_key job_b = (Some ''ann@example.com'', Some ''sales'', Some ''202402'')"
    by (simp_all add: job_key_def month_column_example) (simp_all add: job_a_def job_b_def)
  have b: "j_total_bytes_billed job_a = Some 1099511627776"
    "j_total_bytes_billed job_b = Some 1099511627776"
    by (simp_all add: job_a_def job_b_def)
  show ?thesis
    unfolding per_project_query_eq selected_jobs_example
    by (simp add: k aggregate_def inner_select_def cost_in_dollar_example b sql_sum_def
        List.map_filter_def sql_round_def sql_div_def gb_divisor_def round_to_10 round_to_2048)
qed

theorem per_project_aggregation_example:
  "jobs_costs_per_project_query (2024, 2, 1) (2024, 2, 29) [job_a, job_b] =
     [\<lparr>p_project_id = Some ''sales'', p_user_email = Some ''ann@example.com'',
       p_month = Some ''202402'', p_num_queries = 2, p_bytes_processed_in_gb = Some 2048,
       p_cost_in_dollar = Some 10\<rparr>]
   \<and> map cost_in_dollar [job_a, job_b] = [Some 5, Some 5]
   \<and> sql_round (sql_sum (map cost_in_dollar [job_a, job_b])) 4 = Some 10"
proof -
  let ?r = "\<lparr>p_project_id = Some ''sales'', p_user_email = Some ''ann@example.com'',
       p_month = Some ''202402'', p_num_queries = 2, p_bytes_processed_in_gb = Some 2048,
       p_cost_in_dollar = Some 10\<rparr>"
  have k: "job_key job_a = row_key ?r" "job_key job_b = row_key ?r"
    by (simp_all add: job_key_def row_key_def month_column_example)
       (simp_all add: job_a_def job_b_def)
  have "?r \<in> set (jobs_costs_per_project_query (2024, 2, 1) (2024, 2, 29) [job_a, job_b])"
    unfolding per_project_example by simp
  from per_project_aggregation [OF this]
  have "p_cost_in_dollar ?r = sql_round (sql_sum (map cost_in_dollar [job_a, job_b])) 4"
    unfolding selected_jobs_example Let_def by (simp add: k)
  then show ?thesis
    unfolding per_project_example by (simp add: cost_in_dollar_example)
qed

section \<open>The generators only read\<close>

lemma storage_usage_loop_world: "snd (storage_usage_loop g ps data w) = w"
proof (induction ps arbitrary: data)
  case Nil
  show ?case by (simp add: io_return_def)
next
  case (Cons p ps)
  show ?case
    using Cons.IH
    by (auto simp: io_bind_def BQ_get_table_def CS_list_blobs_def api_read_def
        split: option.splits sum.splits prod.splits)
qed

lemma storage_usage_loop_rows:
  "fst (storage_usage_loop g ps data w) = Inr rs \<Longrightarrow>
     length rs = length data + length ps
     \<and> (\<forall>r\<in>set rs. r \<in> set data \<or> s_month r = str_last_month g)"
proof (induction ps arbitrary: data)
  case Nil
  then show ?case by (simp add: io_return_def)
next
  case (Cons p ps)
  from Cons.prems obtain row where
    "fst (storage_usage_loop g ps (data @ [row]) w) = Inr rs" and "s_month row = str_last_month g"
    by (auto simp: io_bind_def BQ_get_table_def CS_list_blobs_def api_read_def
        split: option.splits sum.splits prod.splits)
  with Cons.IH [of "data @ [row]"] show ?case by auto
qed

lemma reads_only_storage: "reads_only g generate_storage_usage"
proof -
  have "snd (generate_storage_usage g w) = w" for w
    using storage_usage_loop_world [of g "bigquery_projects g" "[]" w]
    by (cases "storage_usage_loop g (bigquery_projects g) [] w")
       (auto simp: generate_storage_usage_def io_bind_def io_return_def split: sum.splits)
  then show ?thesis by (simp add: reads_only_def)
qed

lemma generate_storage_usage_rows:
  assumes "fst (generate_storage_usage g w) = Inr df"
  shows "length df = length (bigquery_projects g)
     \<and> list_all (\<lambda>r. month_of r = Some (str_last_month g)) df"
proof -
  from assms obtain rs where rs: "fst (storage_usage_loop g (bigquery_projects g) [] w) = Inr rs"
    and df: "df = map StorageUsage rs"
    by (cases "storage_usage_loop g (bigquery_projects g) [] w")
       (auto simp: generate_storage_usage_def io_bind_def io_return_def split: sum.splits)
  from storage_usage_loop_rows [OF rs] show ?thesis
    by (auto simp: df list_all_iff)
qed

lemma rows_of_month_storage: "rows_of_month g generate_storage_usage"
  using generate_storage_usage_rows by (simp add: rows_of_month_def)

lemma generate_storage_usage_no_projects:
  assumes "bigquery_projects g = []"
  shows "fst (generate_storage_usage g w) = Inr []"
  using assms by (simp add: generate_storage_usage_def io_bind_def io_return_def)

text \<open>The storage report is empty only when no dataset is tracked, and then in every world.\<close>

lemma generate_storage_usage_empty:
  assumes "fst (generate_storage_usage g w) = Inr []"
  shows "fst (generate_storage_usage g w') = Inr []"
  using generate_storage_usage_rows [OF assms] generate_storage_usage_no_projects by simp

lemma generate_detail_eq:
  "generate_bq_jobs_costs_detail g w =
    (case faults w (Query (SelectJobsCostsDetail (date_first_day_previous_month g)
                             (date_last_day_previous_month g))) of
       Some x \<Rightarrow> (Inl (ServiceError x), w)
     | None \<Rightarrow>
         (Inr (map JobsCostsDetail
                 (jobs_costs_detail_query (date_first_day_previous_month g)
                    (date_last_day_previous_month g) (jobs w))), w))"
  by (simp add: generate_bq_jobs_costs_detail_def api_read_def split: option.splits)

lemma generate_per_project_eq:
  "generate_bq_jobs_costs_per_project g w =
    (case faults w (Query (SelectJobsCostsPerProject (date_first_day_previous_month g)
                             (date_last_day_previous_month g))) of
       Some x \<Rightarrow> (Inl (ServiceError x), w)
     | None \<Rightarrow>
         (Inr (map JobsCostsPerProject
                 (jobs_costs_per_project_query (date_first_day_previous_month g)
                    (date_last_day_previous_month g) (jobs w))), w))"
  by (simp add: generate_bq_jobs_costs_per_project_def api_read_def split: option.splits)

lemma reads_only_detail: "reads_only g generate_bq_jobs_costs_detail"
  by (simp add: reads_only_def generate_detail_eq split: option.splits)

lemma reads_only_per_project: "reads_only g generate_bq_jobs_costs_per_project"
  by (simp add: reads_only_def generate_per_project_eq split: option.splits)

lemma rows_of_month_detail:
  assumes "period_globals g"
  shows "rows_of_month g generate_bq_jobs_costs_detail"
  using month_column_selected [OF assms]
  by (auto simp: rows_of_month_def generate_detail_eq list_all_iff jobs_costs_detail_query_def
      detail_select_def split: option.splits)

lemma group_by_month:
  assumes "r \<in> set (group_by rs)"
  shows "\<exists>x\<in>set rs. p_month r = i_month x"
  using assms by (auto simp: group_by_def aggregate_def group_key_def)

lemma rows_of_month_per_project:
  assumes "period_globals g"
  shows "rows_of_month g generate_bq_jobs_costs_per_project"
proof -
  have "p_month r = Some (str_last_month g)"
    if "r \<in> set (jobs_costs_per_project_query (date_first_day_previous_month g)
                   (date_last_day_previous_month g) js)"
    for r js
    using group_by_month [OF that [unfolded jobs_costs_per_project_query_def]]
      month_column_selected [OF assms]
    by (auto simp: inner_select_def)
  then show ?thesis
    by (auto simp: rows_of_month_def generate_per_project_eq list_all_iff split: option.splits)
qed

lemma generate_detail_same:
  "same_services w w' \<Longrightarrow>
     fst (generate_bq_jobs_costs_detail g w') = fst (generate_bq_jobs_costs_detail g w)"
  by (simp add: generate_detail_eq same_services_def split: option.splits)

lemma generate_per_project_same:
  "same_services w w' \<Longrightarrow>
     fst (generate_bq_jobs_costs_per_project g w') = fst (generate_bq_jobs_costs_per_project g w)"
  by (simp add: generate_per_project_eq same_services_def split: option.splits)

section \<open>One report\<close>

lemma append_rows_Nil [simp]: "append_rows sz t [] = t"
  by (simp add: append_rows_def)

lemma month_rows_append_rows:
  "month_rows key (append_rows sz t df) = month_rows key t @ filter (\<lambda>r. month_of r = Some key) df"
  by (simp add: month_rows_def append_rows_def)

lemma filter_rows_of_month:
  assumes "rows_of_month g f" and "fst (f g w) = Inr df"
  shows "filter (\<lambda>r. month_of r = Some (str_last_month g)) df = df"
  using assms by (auto simp: rows_of_month_def list_all_iff filter_id_conv)

lemma store_df_in_bq_eq:
  "store_df_in_bq g df table_name w =
     (case faults w (ToGbq (billing_dataset_id g @ ''.'' @ table_name) (billing_project_id g)) of
        Some x \<Rightarrow> (Inl (ServiceError x), w)
      | None \<Rightarrow>
          (Inr (),
           w\<lparr>tables := (tables w)(table_id g table_name \<mapsto>
                append_rows (row_bytes w)
                  (case tables w (table_id g table_name) of
                     None \<Rightarrow> \<lparr>num_bytes = 0, table_rows = []\<rparr>
                   | Some t \<Rightarrow> t) df)\<rparr>))"
  by (simp add: store_df_in_bq_def to_gbq_def table_id_def Let_def split: option.splits)

text \<open>One report, by cases on the gate, the generator and the store.\<close>

lemma run_report_eq:
  assumes "reads_only g f"
  shows "run_report g table_name f w =
     (case fst (can_insert_data g table_name w) of
        Inl e \<Rightarrow> (Inl e, w)
      | Inr ok \<Rightarrow>
          if ok then (case fst (f g w) of
                        Inl e \<Rightarrow> (Inl e, w)
                      | Inr df \<Rightarrow> store_df_in_bq g df table_name w)
          else (Inr (), w))"
proof -
  obtain r where gate: "can_insert_data g table_name w = (r, w)"
    by (metis can_insert_data_world prod.collapse)
  obtain d where gen: "f g w = (d, w)"
    using assms by (metis reads_only_def prod.collapse)
  show ?thesis
    by (simp add: run_report_def io_bind_def gate gen io_return_def split: sum.splits)
qed

lemma run_report_allowed:
  assumes "reads_only g f"
    and "fst (can_insert_data g n w) = Inr True"
    and "fst (f g w) = Inr df"
    and "faults w (ToGbq (billing_dataset_id g @ ''.'' @ n) (billing_project_id g)) = None"
  shows "run_report g n f w =
     (Inr (), w\<lparr>tables := (tables w)(table_id g n \<mapsto>
        append_rows (row_bytes w)
          (case tables w (table_id g n) of
             None \<Rightarrow> \<lparr>num_bytes = 0, table_rows = []\<rparr>
           | Some t \<Rightarrow> t) df)\<rparr>)"
  using assms(2-) unfolding run_report_eq [OF assms(1)] store_df_in_bq_eq by simp

text \<open>A report that raises has changed nothing.\<close>

lemma run_report_abort:
  assumes "reads_only g f" and "run_report g table_name f w = (Inl e, w1)"
  shows "w1 = w"
  using assms(2) unfolding run_report_eq [OF assms(1)] store_df_in_bq_eq
  by (auto split: sum.splits if_splits option.splits)

text \<open>A report changes at most its own table.\<close>

lemma run_report_frame:
  assumes "reads_only g f" and "run_report g table_name f w = (r, w1)"
  shows "same_services w w1
     \<and> (\<forall>tid. tid \<noteq> table_id g table_name \<longrightarrow> tables w1 tid = tables w tid)"
  using assms(2) unfolding run_report_eq [OF assms(1)] store_df_in_bq_eq
  by (auto simp: same_services_def split: sum.splits if_splits option.splits)

text \<open>A report that ran to its end leaves a later world unchanged when it is run again.\<close>

lemma run_report_rerun:
  assumes ro: "reads_only g f" and rm: "rows_of_month g f"
    and run: "run_report g table_name f w = (Inr (), w1)"
    and ss: "same_services w1 w2"
    and tb: "tables w2 (table_id g table_name) = tables w1 (table_id g table_name)"
    and emp: "fst (f g w) = Inr [] \<Longrightarrow> fst (f g w2) = Inr []"
  shows "snd (run_report g table_name f w2) = w2"
proof -
  let ?tid = "table_id g table_name"
  let ?key = "str_last_month g"
  from run_report_frame [OF ro run] ss have fl: "faults w2 = faults w"
    by (simp add: same_services_def)
  consider (denied) "fst (can_insert_data g table_name w) = Inr False"
    | (allowed) "fst (can_insert_data g table_name w) = Inr True"
    using run unfolding run_report_eq [OF ro] by (auto split: sum.splits if_splits)
  then show ?thesis
  proof cases
    case denied
    then have "w1 = w" using run unfolding run_report_eq [OF ro] by simp
    with denied tb fl
    have "fst (can_insert_data g table_name w2) = fst (can_insert_data g table_name w)"
      by (simp add: can_insert_data_eq split: option.splits)
    with denied show ?thesis unfolding run_report_eq [OF ro] by simp
  next
    case allowed
    then obtain df where df: "fst (f g w) = Inr df"
      and st: "store_df_in_bq g df table_name w = (Inr (), w1)"
      using run unfolding run_report_eq [OF ro] by (auto split: sum.splits)
    from st
    have tg: "faults w (ToGbq (billing_dataset_id g @ ''.'' @ table_name) (billing_project_id g)) = None"
      unfolding store_df_in_bq_eq by (auto split: option.splits)
    define t0 where
      "t0 = (case tables w ?tid of None \<Rightarrow> \<lparr>num_bytes = 0, table_rows = []\<rparr> | Some t \<Rightarrow> t)"
    from st tg have "tables w1 ?tid = Some (append_rows (row_bytes w) t0 df)"
      unfolding store_df_in_bq_eq t0_def by auto
    with tb have t2: "tables w2 ?tid = Some (append_rows (row_bytes w) t0 df)" by simp
    from allowed have m0: "month_rows ?key t0 = []" and gt: "faults w (GetTable ?tid) = None"
      unfolding t0_def by (auto simp: can_insert_data_eq month_rows_def split: option.splits)
    have mr: "month_rows ?key (append_rows (row_bytes w) t0 df) = df"
      by (simp add: month_rows_append_rows m0 filter_rows_of_month [OF rm df])
    show ?thesis
    proof (cases "faults w (Query (SelectMonth ?tid ?key))")
      case (Some x)
      with t2 fl gt show ?thesis unfolding run_report_eq [OF ro] by (simp add: can_insert_data_eq)
    next
      case None
      with t2 fl gt mr have gate2: "fst (can_insert_data g table_name w2) = Inr (df = [])"
        by (simp add: can_insert_data_eq)
      show ?thesis
      proof (cases "df = []")
        case False
        with gate2 show ?thesis unfolding run_report_eq [OF ro] by simp
      next
        case True
        with df emp have "fst (f g w2) = Inr []" by simp
        with gate2 True t2 fl tg show ?thesis
          unfolding run_report_eq [OF ro] store_df_in_bq_eq by (simp add: map_upd_triv)
      qed
    qed
  qed
qed

text \<open>After a report ran to its end its table exists, and holds the month unless the frame was empty.\<close>

lemma run_report_done:
  assumes ro: "reads_only g f" and rm: "rows_of_month g f"
    and run: "run_report g n f w = (Inr (), w1)"
  shows "\<exists>t. tables w1 (table_id g n) = Some t
             \<and> (month_rows (str_last_month g) t = [] \<longrightarrow> fst (f g w) = Inr [])"
proof -
  consider (denied) "fst (can_insert_data g n w) = Inr False"
    | (allowed) "fst (can_insert_data g n w) = Inr True"
    using run unfolding run_report_eq [OF ro] by (auto split: sum.splits if_splits)
  then show ?thesis
  proof cases
    case denied
    then have "w1 = w" using run unfolding run_report_eq [OF ro] by simp
    with denied show ?thesis by (auto simp: can_insert_data_eq split: option.splits)
  next
    case allowed
    then obtain df where df: "fst (f g w) = Inr df"
      and st: "store_df_in_bq g df n w = (Inr (), w1)"
      using run unfolding run_report_eq [OF ro] by (auto split: sum.splits)
    from st obtain t0 where t1: "tables w1 (table_id g n) = Some (append_rows (row_bytes w) t0 df)"
      unfolding store_df_in_bq_eq by (auto split: option.splits)
    have "month_rows (str_last_month g) (append_rows (row_bytes w) t0 df) = [] \<longrightarrow> df = []"
      by (simp add: month_rows_append_rows filter_rows_of_month [OF rm df])
    with t1 df show ?thesis by auto
  qed
qed

lemma rerun_allowed_empty:
  assumes dn: "\<exists>t. tables w1 (table_id g n) = Some t
             \<and> (month_rows (str_last_month g) t = [] \<longrightarrow> fst (f g w) = Inr [])"
    and tb: "tables w2 (table_id g n) = tables w1 (table_id g n)"
    and gate: "fst (can_insert_data g n w2) = Inr True"
  shows "fst (f g w) = Inr []"
  using assms by (auto simp: can_insert_data_eq split: option.splits)

text \<open>A report whose gate denies is left as it is by every report.\<close>

lemma run_report_keeps_denied:
  assumes ro: "reads_only g f" and run: "run_report g n f w = (r, w1)"
    and denied: "fst (can_insert_data g name w) = Inr False"
  shows "tables w1 (table_id g name) = tables w (table_id g name)
         \<and> fst (can_insert_data g name w1) = Inr False"
proof (cases "n = name")
  case True
  with run denied have "w1 = w" unfolding run_report_eq [OF ro] by simp
  with denied show ?thesis by simp
next
  case False
  then have "table_id g name \<noteq> table_id g n" by (simp add: table_id_def)
  with run_report_frame [OF ro run]
  have "faults w1 = faults w" and "tables w1 (table_id g name) = tables w (table_id g name)"
    by (simp_all add: same_services_def)
  with denied can_insert_data_frame [OF this] show ?thesis by simp
qed

section \<open>The pipeline\<close>

lemma same_services_refl [simp]: "same_services w w"
  by (simp add: same_services_def)

lemma same_services_trans: "same_services a b \<Longrightarrow> same_services b c \<Longrightarrow> same_services a c"
  by (simp add: same_services_def)

lemma table_id_inject [simp]: "table_id g a = table_id g b \<longleftrightarrow> a = b"
  by (simp add: table_id_def)

lemma main_steps:
  "main g w =
     (case step1 g w of
        (Inl e, w1) \<Rightarrow> (Inl e, w1)
      | (Inr u, w1) \<Rightarrow>
          (case step2 g w1 of
             (Inl e, w2) \<Rightarrow> (Inl e, w2)
           | (Inr u, w2) \<Rightarrow>
               (case step3 g w2 of
                  (Inl e, w3) \<Rightarrow> (Inl e, w3)
                | (Inr u, w3) \<Rightarrow> (Inr (), w3))))"
  by (simp add: main_def reports_def io_bind_def io_return_def step1_def step2_def step3_def
      split: prod.splits sum.splits)

lemma main_unchanged:
  assumes "snd (step1 g w) = w"
    and "fst (step1 g w) = Inr () \<Longrightarrow> snd (step2 g w) = w"
    and "fst (step1 g w) = Inr () \<Longrightarrow> fst (step2 g w) = Inr () \<Longrightarrow> snd (step3 g w) = w"
  shows "snd (main g w) = w"
  using assms unfolding main_steps
  by (auto split: prod.splits sum.splits)

subsection \<open>A missing table of a tracked dataset\<close>

lemma storage_usage_loop_missing:
  assumes "p \<in> set ps"
    and "tables w (project_id g @ ''.'' @ p @ ''.'' @ main_table_name g) = None"
  shows "\<exists>e. fst (storage_usage_loop g ps data w) = Inl e
            \<and> ((\<forall>c. faults w c = None) \<longrightarrow> e = NotFound)"
  using assms(1)
proof (induction ps arbitrary: data)
  case Nil
  then show ?case by simp
next
  case (Cons q ps)
  show ?case
  proof (cases "q = p")
    case True
    with assms(2) show ?thesis
      by (auto simp: io_bind_def BQ_get_table_def api_read_def split: option.splits)
  next
    case False
    with Cons.prems have "p \<in> set ps" by simp
    from Cons.IH [OF this] show ?thesis
      by (auto simp: io_bind_def BQ_get_table_def CS_list_blobs_def api_read_def
          split: option.splits sum.splits prod.splits)
  qed
qed

lemma generate_storage_usage_missing:
  assumes "p \<in> set (bigquery_projects g)"
    and "tables w (project_id g @ ''.'' @ p @ ''.'' @ main_table_name g) = None"
  shows "\<exists>e. generate_storage_usage g w = (Inl e, w)
            \<and> ((\<forall>c. faults w c = None) \<longrightarrow> e = NotFound)"
proof -
  from storage_usage_loop_missing [OF assms, of "[]"] obtain e
    where e: "fst (storage_usage_loop g (bigquery_projects g) [] w) = Inl e"
      and nf: "(\<forall>c. faults w c = None) \<longrightarrow> e = NotFound" by blast
  from e have "fst (generate_storage_usage g w) = Inl e"
    by (cases "storage_usage_loop g (bigquery_projects g) [] w")
       (simp add: generate_storage_usage_def io_bind_def)
  with reads_only_storage [of g] have "generate_storage_usage g w = (Inl e, w)"
    by (simp add: reads_only_def prod_eq_iff)
  with nf show ?thesis by blast
qed

lemma main_storage_usage_raises:
  assumes "generate_storage_usage g w = (Inl e, w)"
    and "fst (can_insert_data g ''storage_usage'' w) = Inr True"
  shows "main g w = (Inl e, w)"
proof -
  from assms have "step1 g w = (Inl e, w)"
    unfolding step1_def run_report_eq [OF reads_only_storage] by simp
  then show ?thesis by (simp add: main_steps)
qed

text \<open>
  Claim C9. If the table of one tracked dataset does not exist, \<open>generate_storage_usage\<close>
  raises: it returns no frame, so the dataset is not skipped. When the gate allows the
  storage report, \<open>main\<close> raises the same exception and ends in the world in which it
  started: nothing is stored, neither the storage report nor the two reports after it. When
  no call fails for another reason, the exception is NotFound.
\<close>

theorem missing_table_aborts:
  assumes "p \<in> set (bigquery_projects g)"
    and "tables w (project_id g @ ''.'' @ p @ ''.'' @ main_table_name g) = None"
  shows "\<exists>e. generate_storage_usage g w = (Inl e, w)
            \<and> (fst (can_insert_data g ''storage_usage'' w) = Inr True \<longrightarrow> main g w = (Inl e, w))
            \<and> ((\<forall>c. faults w c = None) \<longrightarrow> e = NotFound)"
  using generate_storage_usage_missing [OF assms] main_storage_usage_raises by blast

text \<open>In the example the table \<^verbatim>\<open>core.hr.main\<close> is missing and the run ends with NotFound.\<close>

theorem missing_table_aborts_example:
  "bigquery_projects example_globals = [''sales'', ''hr'']
   \<and> tables world_missing_table ''core.hr.main'' = None
   \<and> fst (can_insert_data example_globals ''storage_usage'' world_missing_table) = Inr True
   \<and> generate_storage_usage example_globals world_missing_table = (Inl NotFound, world_missing_table)
   \<and> main example_globals world_missing_table = (Inl NotFound, world_missing_table)"
proof -
  have p: "''hr'' \<in> set (bigquery_projects example_globals)"
    and ps: "bigquery_projects example_globals = [''sales'', ''hr'']"
    by (simp_all add: example_globals_def)
  have t: "tables world_missing_table
             (project_id example_globals @ ''.'' @ ''hr'' @ ''.'' @ main_table_name example_globals) = None"
    and t': "tables world_missing_table ''core.hr.main'' = None"
    by (simp_all add: world_missing_table_def example_globals_def)
  have nf: "\<forall>c. faults world_missing_table c = None"
    by (simp add: world_missing_table_def example_world_def no_faults_def)
  have gate: "fst (can_insert_data example_globals ''storage_usage'' world_missing_table) = Inr True"
    using nf by (simp add: can_insert_data_eq table_id_example world_missing_table_def)
  from missing_table_aborts [OF p t] nf gate ps t' show ?thesis by auto
qed

subsection \<open>Running the pipeline again\<close>

lemma main_twice:
  assumes pg: "period_globals g"
  shows "snd (main g (snd (main g w))) = snd (main g w)"
proof -
  note ro1 = reads_only_storage [of g] and ro2 = reads_only_detail [of g]
    and ro3 = reads_only_per_project [of g]
  note rm1 = rows_of_month_storage [of g] and rm2 = rows_of_month_detail [OF pg]
    and rm3 = rows_of_month_per_project [OF pg]
  obtain r1 w1 where s1: "step1 g w = (r1, w1)" by (cases "step1 g w")
  show ?thesis
  proof (cases r1)
    case (Inl e)
    with s1 have "w1 = w" using run_report_abort [OF ro1] by (simp add: step1_def)
    with s1 Inl have "main g w = (Inl e, w)" by (simp add: main_steps)
    then show ?thesis by simp
  next
    case (Inr u1)
    with s1 have s1: "step1 g w = (Inr (), w1)" by simp
    note f1 = run_report_frame [OF ro1 s1 [unfolded step1_def]]
    obtain r2 w2 where s2: "step2 g w1 = (r2, w2)" by (cases "step2 g w1")
    show ?thesis
    proof (cases r2)
      case (Inl e)
      with s2 have w2: "w2 = w1" using run_report_abort [OF ro2] by (simp add: step2_def)
      with s1 s2 Inl have m: "main g w = (Inl e, w1)" by (simp add: main_steps)
      have "snd (step1 g w1) = w1"
        unfolding step1_def
        by (rule run_report_rerun [OF ro1 rm1 s1 [unfolded step1_def]])
           (simp_all add: generate_storage_usage_empty)
      moreover have "snd (step2 g w1) = w1" using s2 w2 by simp
      moreover have "fst (step2 g w1) \<noteq> Inr ()" using s2 Inl by simp
      ultimately have "snd (main g w1) = w1" by (intro main_unchanged) simp_all
      with m show ?thesis by simp
    next
      case (Inr u2)
      with s2 have s2: "step2 g w1 = (Inr (), w2)" by simp
      note f2 = run_report_frame [OF ro2 s2 [unfolded step2_def]]
      obtain r3 w3 where s3: "step3 g w2 = (r3, w3)" by (cases "step3 g w2")
      note f3 = run_report_frame [OF ro3 s3 [unfolded step3_def]]
      have w3: "r3 \<noteq> Inr () \<Longrightarrow> w3 = w2"
        using s3 run_report_abort [OF ro3] by (cases r3) (auto simp: step3_def)
      from s1 s2 s3 have m: "snd (main g w) = w3"
        by (simp add: main_steps split: sum.splits)
      have "snd (step1 g w3) = w3"
        unfolding step1_def
      proof (rule run_report_rerun [OF ro1 rm1 s1 [unfolded step1_def]])
        show "same_services w1 w3" using f2 f3 by (blast intro: same_services_trans)
        show "tables w3 (table_id g ''storage_usage'') = tables w1 (table_id g ''storage_usage'')"
          using f2 f3 by simp
      qed (simp add: generate_storage_usage_empty)
      moreover have "snd (step2 g w3) = w3"
        unfolding step2_def
      proof (rule run_report_rerun [OF ro2 rm2 s2 [unfolded step2_def]])
        show "same_services w2 w3" using f3 by simp
        show "tables w3 (table_id g ''bq_jobs_costs_detail'') =
              tables w2 (table_id g ''bq_jobs_costs_detail'')"
          using f3 by simp
        show "fst (generate_bq_jobs_costs_detail g w1) = Inr [] \<Longrightarrow>
              fst (generate_bq_jobs_costs_detail g w3) = Inr []"
          using generate_detail_same [of w1 w3 g] f2 f3 by (auto intro: same_services_trans)
      qed
      moreover have "snd (step3 g w3) = w3"
      proof (cases "r3 = Inr ()")
        case True
        show ?thesis
          unfolding step3_def
        proof (rule run_report_rerun [OF ro3 rm3 s3 [unfolded step3_def True]])
          show "fst (generate_bq_jobs_costs_per_project g w2) = Inr [] \<Longrightarrow>
                fst (generate_bq_jobs_costs_per_project g w3) = Inr []"
            using generate_per_project_same [of w2 w3 g] f3 by auto
        qed simp_all
      next
        case False
        with w3 s3 show ?thesis by simp
      qed
      ultimately have "snd (main g w3) = w3" by (intro main_unchanged)
      with m show ?thesis by simp
    qed
  qed
qed

lemma main_keeps_denied:
  assumes "fst (can_insert_data g name w) = Inr False"
  shows "tables (snd (main g w)) (table_id g name) = tables w (table_id g name)"
proof -
  obtain r1 w1 where s1: "step1 g w = (r1, w1)" by (cases "step1 g w")
  obtain r2 w2 where s2: "step2 g w1 = (r2, w2)" by (cases "step2 g w1")
  obtain r3 w3 where s3: "step3 g w2 = (r3, w3)" by (cases "step3 g w2")
  note k1 = run_report_keeps_denied [OF reads_only_storage s1 [unfolded step1_def] assms]
  note k2 = run_report_keeps_denied [OF reads_only_detail s2 [unfolded step2_def]
      k1 [THEN conjunct2]]
  note k3 = run_report_keeps_denied [OF reads_only_per_project s3 [unfolded step3_def]
      k2 [THEN conjunct2]]
  from k1 k2 k3 s1 s2 s3 show ?thesis
    by (auto simp: main_steps split: sum.splits)
qed

lemma main_done:
  assumes pg: "period_globals g" and ok: "fst (main g w) = Inr ()"
    and rep: "(n, f) \<in> set reports"
    and gate: "fst (can_insert_data g n (snd (main g w))) = Inr True"
  shows "fst (f g (snd (main g w))) = Inr []"
proof -
  note ro1 = reads_only_storage [of g] and ro2 = reads_only_detail [of g]
    and ro3 = reads_only_per_project [of g]
  note rm1 = rows_of_month_storage [of g] and rm2 = rows_of_month_detail [OF pg]
    and rm3 = rows_of_month_per_project [OF pg]
  obtain r1 w1 where s1: "step1 g w = (r1, w1)" by (cases "step1 g w")
  obtain r2 w2 where s2: "step2 g w1 = (r2, w2)" by (cases "step2 g w1")
  obtain r3 w3 where s3: "step3 g w2 = (r3, w3)" by (cases "step3 g w2")
  from ok s1 s2 s3 have r: "r1 = Inr ()" "r2 = Inr ()" "r3 = Inr ()" and W: "snd (main g w) = w3"
    by (auto simp: main_steps split: sum.splits)
  note s1 = s1 [unfolded r step1_def] and s2 = s2 [unfolded r step2_def]
    and s3 = s3 [unfolded r step3_def]
  note f2 = run_report_frame [OF ro2 s2] and f3 = run_report_frame [OF ro3 s3]
  from rep consider (a) "n = ''storage_usage''" "f = generate_storage_usage"
    | (b) "n = ''bq_jobs_costs_detail''" "f = generate_bq_jobs_costs_detail"
    | (c) "n = ''bq_jobs_costs_per_project''" "f = generate_bq_jobs_costs_per_project"
    by (auto simp: reports_def)
  then show ?thesis
  proof cases
    case a
    have "tables w3 (table_id g n) = tables w1 (table_id g n)" using f2 f3 a by simp
    from rerun_allowed_empty [where f = generate_storage_usage and g = g and w = w,
        OF run_report_done [OF ro1 rm1 s1] this [unfolded a] gate [unfolded W a]]
    show ?thesis unfolding W a by (rule generate_storage_usage_empty)
  next
    case b
    have "tables w3 (table_id g n) = tables w2 (table_id g n)" using f3 b by simp
    from rerun_allowed_empty [where f = generate_bq_jobs_costs_detail and g = g and w = w1,
        OF run_report_done [OF ro2 rm2 s2] this [unfolded b] gate [unfolded W b]]
    show ?thesis unfolding W b
      using generate_detail_same [of w1 w3 g] f2 f3 by (auto intro: same_services_trans)
  next
    case c
    from rerun_allowed_empty [where f = generate_bq_jobs_costs_per_project and g = g and w = w2,
        OF run_report_done [OF ro3 rm3 s3] refl gate [unfolded W c]]
    show ?thesis unfolding W c
      using generate_per_project_same [of w2 w3 g] f3 by auto
  qed
qed

text \<open>
  Claim C2, as the code has it. For the variables of any load of the module, any state of
  the destination and of the services:

  \<^item> running the pipeline a second time ends in the state in which the first run ended,
    also when a run raises;
  \<^item> a table for which \<open>can_insert_data\<close> returns False is not changed by a run, so a
    table that holds rows of the month gets no second batch of that month;
  \<^item> after a run that ended without exception, a report that the gate allows again has an
    empty frame: the second run skips every report whose batch has a row, and generates and
    stores again, without appending a row, a report whose batch is empty.
\<close>

theorem pipeline_idempotent:
  assumes "valid_date today" and "load_module environ today = Inr g"
  shows "snd (main g (snd (main g w))) = snd (main g w)
     \<and> (fst (can_insert_data g name w) = Inr False \<longrightarrow>
          tables (snd (main g w)) (table_id g name) = tables w (table_id g name))
     \<and> (fst (main g w) = Inr () \<and> (n, f) \<in> set reports
          \<and> fst (can_insert_data g n (snd (main g w))) = Inr True \<longrightarrow>
          fst (f g (snd (main g w))) = Inr [])"
  using main_twice [OF load_module_period [OF assms]] main_keeps_denied
    main_done [OF load_module_period [OF assms]]
  by blast

text \<open>The run of 2024-03-15 of the example, and a table that already holds February 2024.\<close>

theorem pipeline_idempotent_example:
  "valid_date (2024, 3, 15)
   \<and> load_module example_environ (2024, 3, 15) = Inr example_globals
   \<and> snd (main example_globals (snd (main example_globals example_world))) =
       snd (main example_globals example_world)
   \<and> fst (can_insert_data example_globals ''storage_usage'' world_with_february) = Inr False
   \<and> tables (snd (main example_globals world_with_february)) ''bill.reports.storage_usage'' =
       tables world_with_february ''bill.reports.storage_usage''"
proof -
  have v: "valid_date (2024, 3, 15)" by (simp add: days_in_month_def)
  have d: "fst (can_insert_data example_globals ''storage_usage'' world_with_february) = Inr False"
    by (simp add: can_insert_data_eq table_id_example str_last_month_example month_rows_def
        world_with_february_def example_world_def no_faults_def)
  from pipeline_idempotent [OF v load_module_example, of example_world]
    pipeline_idempotent [OF v load_module_example, of world_with_february "''storage_usage''"]
    v d load_module_example
  show ?thesis by (simp add: table_id_example)
qed

text \<open>
  A month without queries: the first run ends without exception and stores the storage
  report and two empty cost reports; in the state it leaves, the gate allows the detail
  report again, so the second run does not skip it.
\<close>

lemma generate_storage_usage_example:
  "generate_storage_usage example_globals world_without_jobs =
     (Inr (map StorageUsage storage_rows_february), world_without_jobs)"
  by (simp add: generate_storage_usage_def io_bind_def io_return_def BQ_get_table_eq
      CS_list_blobs_def api_read_def example_globals_def world_without_jobs_def
      example_world_def no_faults_def storage_rows_february_def)

lemma main_without_jobs:
  "main example_globals world_without_jobs = (Inr (), world_after_run_without_jobs)"
proof -
  let ?g = example_globals
  define w0 where "w0 = world_without_jobs"
  define w1 where "w1 = w0\<lparr>tables := (tables w0)(''bill.reports.storage_usage'' \<mapsto>
          \<lparr>num_bytes = 64, table_rows = map StorageUsage storage_rows_february\<rparr>)\<rparr>"
  define w2 where "w2 = w1\<lparr>tables := (tables w1)(''bill.reports.bq_jobs_costs_detail'' \<mapsto>
          \<lparr>num_bytes = 0, table_rows = []\<rparr>)\<rparr>"
  define w3 where "w3 = w2\<lparr>tables := (tables w2)(''bill.reports.bq_jobs_costs_per_project'' \<mapsto>
          \<lparr>num_bytes = 0, table_rows = []\<rparr>)\<rparr>"
  have w0: "faults w0 = no_faults" "jobs w0 = []" "row_bytes w0 = example_row_bytes"
    "tables w0 ''bill.reports.storage_usage'' = None"
    "tables w0 ''bill.reports.bq_jobs_costs_detail'' = None"
    "tables w0 ''bill.reports.bq_jobs_costs_per_project'' = None"
    by (simp_all add: w0_def world_without_jobs_def example_world_def)
  have s1: "step1 ?g w0 = (Inr (), w1)"
    unfolding step1_def
    by (subst run_report_allowed [OF reads_only_storage,
          where df = "map StorageUsage storage_rows_february"])
       (simp_all add: can_insert_data_eq table_id_example w0 no_faults_def
          generate_storage_usage_example [folded w0_def] w1_def
          append_rows_def storage_rows_february_def example_row_bytes_def)
  have s2: "step2 ?g w1 = (Inr (), w2)"
    unfolding step2_def
    by (subst run_report_allowed [OF reads_only_detail, where df = "[]"])
       (simp_all add: can_insert_data_eq table_id_example w0 w1_def no_faults_def
          generate_detail_eq jobs_costs_detail_query_def selected_jobs_Nil w2_def)
  have s3: "step3 ?g w2 = (Inr (), w3)"
    unfolding step3_def
    by (subst run_report_allowed [OF reads_only_per_project, where df = "[]"])
       (simp_all add: can_insert_data_eq table_id_example w0 w1_def w2_def no_faults_def
          generate_per_project_eq jobs_costs_per_project_query_def group_by_def
          selected_jobs_Nil w3_def)
  have "w3 = world_after_run_without_jobs"
    by (simp add: w3_def w2_def w1_def w0_def world_after_run_without_jobs_def)
  with s1 s2 s3 show ?thesis by (simp add: main_steps w0_def)
qed

theorem second_run_not_skipped:
  "main example_globals world_without_jobs = (Inr (), world_after_run_without_jobs)
   \<and> fst (can_insert_data example_globals ''bq_jobs_costs_detail''
            world_after_run_without_jobs) = Inr True
   \<and> fst (can_insert_data example_globals ''bq_jobs_costs_per_project''
            world_after_run_without_jobs) = Inr True"
proof -
  have "fst (can_insert_data example_globals n world_after_run_without_jobs) = Inr True"
    if "n = ''bq_jobs_costs_detail'' \<or> n = ''bq_jobs_costs_per_project''" for n
    using that
    by (auto simp: can_insert_data_eq table_id_example str_last_month_example
        world_after_run_without_jobs_def world_without_jobs_def example_world_def no_faults_def
        month_rows_def)
  with main_without_jobs show ?thesis by simp
qed

end
